theory Spec2Isabelle
  imports Main "HOL-Library.Word" "HOL-Library.Sublist" "HOL-Library.Multiset"
begin

section \<open>JavaScript values\<close>

text \<open>
  A JavaScript string is a sequence of UTF-16 code units; \<open>length\<close> counts code units, as
  the \<open>.length\<close> property does. \<open>js\<close> embeds an ASCII literal of the source.
\<close>

type_synonym jsstring = "16 word list"

definition js :: "string \<Rightarrow> jsstring" where
  "js s = map of_char s"

text \<open>
  The document store holds text as Unicode strings: sequences of code points. A JavaScript
  string reaches it encoded as UTF-8, a surrogate pair becoming one code point and a
  surrogate without its partner U+FFFD.
\<close>

type_synonym ustring = "nat list"





text \<open>
  The values a JSON request body, a platform payload or a log detail can hold.
  \<open>JUndefined\<close> is a missing property.
\<close>

datatype json =
    JUndefined
  | JNull
  | JBool bool
  | JNum int
  | JStr jsstring
  | JArr "json list"
  | JObj "(string \<times> json) list"

text \<open>JavaScript truthiness, as used by \<open>!x\<close>, \<open>x && y\<close> and \<open>x || y\<close>.\<close>

fun truthy :: "json \<Rightarrow> bool" where
  "truthy JUndefined = False"
| "truthy JNull = False"
| "truthy (JBool b) = b"
| "truthy (JNum n) = (n \<noteq> 0)"
| "truthy (JStr s) = (s \<noteq> [])"
| "truthy (JArr xs) = True"
| "truthy (JObj kvs) = True"

text \<open>\<open>a || b\<close>\<close>

definition js_or :: "json \<Rightarrow> json \<Rightarrow> json" where
  "js_or a b = (if truthy a then a else b)"

text \<open>
  The code units \<open>String.prototype.trim\<close> removes: the WhiteSpace and LineTerminator
  productions of ECMAScript.
\<close>

definition is_whitespace :: "16 word \<Rightarrow> bool" where
  "is_whitespace c \<longleftrightarrow>
     c = 0x0009 \<or> c = 0x000A \<or> c = 0x000B \<or> c = 0x000C \<or> c = 0x000D \<or> c = 0x0020 \<or>
     c = 0x00A0 \<or> c = 0x1680 \<or> (0x2000 \<le> c \<and> c \<le> 0x200A) \<or> c = 0x2028 \<or> c = 0x2029 \<or>
     c = 0x202F \<or> c = 0x205F \<or> c = 0x3000 \<or> c = 0xFEFF"

definition trim :: "jsstring \<Rightarrow> jsstring" where
  "trim s = rev (dropWhile is_whitespace (rev (dropWhile is_whitespace s)))"

text \<open>An error object as the handlers read it: \<open>error.code\<close> (a number, or
  \<open>None\<close> when it is undefined or not a number) and \<open>error.message\<close>.\<close>

record js_error =
  code :: "int option"
  message :: jsstring

definition TypeError :: "string \<Rightarrow> js_error" where
  "TypeError m = \<lparr>code = None, message = js m\<rparr>"

definition ReferenceError :: "string \<Rightarrow> js_error" where
  "ReferenceError m = \<lparr>code = None, message = js m\<rparr>"

section \<open>Data model\<close>

text \<open>\<open>oauth2Client.credentials\<close>: the Token State.\<close>

record credentials =
  refresh_token :: "jsstring option"
  access_token :: "jsstring option"
  expiry_date :: "int option"

text \<open>A video resource of the platform, with the snippet fields the handlers touch.\<close>

record snippet =
  title :: json
  description :: json
  other_fields :: "(string \<times> json) list"

record video =
  snippet :: snippet
  other_parts :: "(string \<times> json) list"

text \<open>Documents of the \<open>Log\<close> and \<open>Note\<close> collections (\<open>timestamps: true\<close> adds
  \<open>createdAt\<close>). A note's text is the text as the store holds it.\<close>

record log_entry =
  action :: string
  details :: "(string \<times> json) list"
  createdAt :: int

record note_doc =
  note_videoId :: "jsstring option"
  note_text :: "ustring option"
  note_tags :: "jsstring list"

text \<open>
  The calls a handler makes to its collaborators, in order: the Token Manager
  (\<open>ensureValidToken\<close>), the OAuth provider (\<open>oauth2Client.refreshAccessToken\<close>) and the
  video platform (\<open>youtube.*\<close>).
\<close>

datatype call =
    EnsureValidToken
  | OAuthRefresh
  | VideosList jsstring jsstring
  | VideosUpdate jsstring snippet
  | CommentThreadsInsert jsstring jsstring
  | CommentsInsert jsstring jsstring
  | CommentsDelete jsstring

fun is_platform_call :: "call \<Rightarrow> bool" where
  "is_platform_call EnsureValidToken = False"
| "is_platform_call OAuthRefresh = False"
| "is_platform_call (VideosList part vid) = True"
| "is_platform_call (VideosUpdate vid sn) = True"
| "is_platform_call (CommentThreadsInsert vid txt) = True"
| "is_platform_call (CommentsInsert parent txt) = True"
| "is_platform_call (CommentsDelete cid) = True"

fun is_read_call :: "call \<Rightarrow> bool" where
  "is_read_call (VideosList part vid) = True"
| "is_read_call c = False"

text \<open>The process state: the Token State, the Log and Note collections, and the calls made
  so far.\<close>

record state =
  credentials :: credentials
  logs :: "log_entry list"
  note_docs :: "note_doc list"
  calls :: "call list"

text \<open>
  What the collaborators answer during one request: the clock, the OAuth provider, the
  platform (an error thrown, or the \<open>data\<close> of the response) and the document store
  (\<open>None\<close>: the write or the read is accepted). For the store's \<open>$regex\<close> operator with
  option \<open>i\<close>: \<open>caseless p c\<close> says that the pattern character \<open>p\<close> matches the text
  character \<open>c\<close> when case is ignored, \<open>dot_matches c\<close> that \<open>.\<close> matches \<open>c\<close>, and
  \<open>regex_beyond\<close> is the answer to a pattern that uses more than literal characters and
  \<open>.\<close>: an error for a pattern the store rejects, or the set of texts the pattern matches.
\<close>

record world =
  now :: int
  stamp :: int
  refresh_result :: "js_error + credentials"
  videos_list :: "jsstring \<Rightarrow> jsstring \<Rightarrow> js_error + video list option"
  videos_update :: "jsstring \<Rightarrow> snippet \<Rightarrow> js_error + json"
  commentThreads_insert :: "jsstring \<Rightarrow> jsstring \<Rightarrow> js_error + json"
  comments_insert :: "jsstring \<Rightarrow> jsstring \<Rightarrow> js_error + json"
  comments_delete :: "jsstring \<Rightarrow> js_error option"
  log_create :: "string \<Rightarrow> (string \<times> json) list \<Rightarrow> js_error option"
  store_find :: "js_error option"
  caseless :: "nat \<Rightarrow> nat \<Rightarrow> bool"
  dot_matches :: "nat \<Rightarrow> bool"
  regex_beyond :: "ustring \<Rightarrow> js_error + (ustring \<Rightarrow> bool)"

datatype body =
    Obj "(string \<times> json) list"
  | VideoBody video
  | Data json
  | NotesBody "note_doc list"
  | LogsBody "log_entry list"

record response =
  status :: nat
  body :: body

section \<open>Asynchronous code with exceptions\<close>

text \<open>
  An \<open>async\<close> computation over the process state: it throws (\<open>Inl\<close>, a rejected promise)
  or returns a value (\<open>Inr\<close>).
\<close>

type_synonym 'a io = "state \<Rightarrow> (js_error + 'a) \<times> state"

definition ret :: "'a \<Rightarrow> 'a io" where
  "ret x = (\<lambda>s. (Inr x, s))"

definition throw :: "js_error \<Rightarrow> 'a io" where
  "throw e = (\<lambda>s. (Inl e, s))"

definition bind :: "'a io \<Rightarrow> ('a \<Rightarrow> 'b io) \<Rightarrow> 'b io" where
  "bind m f = (\<lambda>s. case m s of (Inl e, s') \<Rightarrow> (Inl e, s') | (Inr x, s') \<Rightarrow> f x s')"

definition try_catch :: "'a io \<Rightarrow> (js_error \<Rightarrow> 'a io) \<Rightarrow> 'a io" where
  "try_catch m h = (\<lambda>s. case m s of (Inl e, s') \<Rightarrow> h e s' | (Inr x, s') \<Rightarrow> (Inr x, s'))"

text \<open>A call to a collaborator: recorded, then its answer.\<close>

definition do_call :: "call \<Rightarrow> js_error + 'a \<Rightarrow> 'a io" where
  "do_call c r = (\<lambda>s. (r, s\<lparr>calls := calls s @ [c]\<rparr>))"

definition get_credentials :: "credentials io" where
  "get_credentials = (\<lambda>s. (Inr (credentials s), s))"

definition setCredentials :: "credentials \<Rightarrow> unit io" where
  "setCredentials c = (\<lambda>s. (Inr (), s\<lparr>credentials := c\<rparr>))"

text \<open>\<open>Log.create({action, details})\<close>: the store stamps the document and appends it.\<close>

definition Log_create :: "world \<Rightarrow> string \<Rightarrow> (string \<times> json) list \<Rightarrow> unit io" where
  "Log_create w a d =
     (\<lambda>s. case log_create w a d of
             Some e \<Rightarrow> (Inl e, s)
           | None \<Rightarrow> (Inr (), s\<lparr>logs := logs s @ [\<lparr>action = a, details = d, createdAt = stamp w\<rparr>]\<rparr>))"

section \<open>Token Manager\<close>

text \<open>
  \<open>oauth2Client.refreshAccessToken()\<close> belongs to the OAuth client library: it throws, or it
  returns the new credentials, which \<open>setCredentials\<close> installs in place of the old ones.
\<close>

definition refreshAccessToken :: "world \<Rightarrow> bool io" where
  "refreshAccessToken w =
     try_catch
       (bind (do_call OAuthRefresh (refresh_result w)) (\<lambda>credentials.
        bind (setCredentials credentials) (\<lambda>_.
        ret True)))
       (\<lambda>error. ret False)"

text \<open>
  \<open>!accessToken\<close> and \<open>expiry && Date.now() >= expiry\<close> on the credential fields: an
  undefined, null or empty token is falsy, and so is an undefined, null or zero expiry.
  The \<open>catch\<close> of \<open>ensureValidToken\<close> is kept as written, although nothing in its \<open>try\<close>
  block throws.
\<close>

definition token_missing :: "jsstring option \<Rightarrow> bool" where
  "token_missing accessToken = (case accessToken of None \<Rightarrow> True | Some t \<Rightarrow> t = [])"

definition expired :: "int option \<Rightarrow> int \<Rightarrow> bool" where
  "expired expiry t = (case expiry of None \<Rightarrow> False | Some e \<Rightarrow> e \<noteq> 0 \<and> t \<ge> e)"

definition ensureValidToken :: "world \<Rightarrow> bool io" where
  "ensureValidToken w =
     bind (do_call EnsureValidToken (Inr ())) (\<lambda>_.
     try_catch
       (bind get_credentials (\<lambda>c.
          let accessToken = access_token c; expiry = expiry_date c in
          if token_missing accessToken \<or> expired expiry (now w)
          then refreshAccessToken w
          else ret True))
       (\<lambda>error. ret False))"

section \<open>API Gateway\<close>

text \<open>
  A handler takes the path parameter and the fields it reads from the JSON body (a field
  that is not there is \<open>JUndefined\<close>) and runs as the source does: a \<open>try\<close> block, whose
  early returns are responses, and a \<open>catch\<close> block. Its result is the response it sends
  (\<open>res.json\<close> without \<open>res.status\<close> is HTTP 200), or \<open>Inl\<close> when an exception leaves the
  \<open>catch\<close> block: the handler's promise is rejected and the handler sends nothing.
\<close>

definition res_json :: "nat \<Rightarrow> (string \<times> json) list \<Rightarrow> response" where
  "res_json st props = \<lparr>status = st, body = Obj props\<rparr>"

definition auth_required :: response where
  "auth_required =
     res_json 401 [(''error'', JStr (js ''Authentication required'')),
                   (''message'', JStr (js ''Please login again''))]"

definition video_not_found :: response where
  "video_not_found =
     res_json 404 [(''error'', JStr (js ''Video not found'')),
                   (''message'', JStr (js ''No video found with the provided ID''))]"

subsection \<open>GET /api/video/:id\<close>

definition getVideo :: "world \<Rightarrow> jsstring \<Rightarrow> response io" where
  "getVideo w videoId =
     try_catch
       (bind (ensureValidToken w) (\<lambda>tokenValid.
        if \<not> tokenValid then ret auth_required
        else
        bind (do_call (VideosList (js ''snippet,statistics'') videoId)
                (videos_list w (js ''snippet,statistics'') videoId)) (\<lambda>items.
        case items of
          None \<Rightarrow> ret video_not_found
        | Some [] \<Rightarrow> ret video_not_found
        | Some (item # rest) \<Rightarrow>
            bind (Log_create w ''FETCH_VIDEO'' [(''videoId'', JStr videoId)]) (\<lambda>_.
            ret \<lparr>status = 200, body = VideoBody item\<rparr>))))
       (\<lambda>error.
        bind (Log_create w ''FETCH_VIDEO_ERROR''
                [(''videoId'', JStr videoId), (''error'', JStr (message error))]) (\<lambda>_.
        ret (res_json 500 [(''error'', JStr (js ''Failed to fetch video'')),
                           (''message'', JStr (message error))])))"

subsection \<open>PUT /api/video/:id\<close>

text \<open>\<open>{...currentSnippet, title: title || currentSnippet.title,
  description: description || currentSnippet.description}\<close>\<close>

definition updatedSnippet :: "json \<Rightarrow> json \<Rightarrow> snippet \<Rightarrow> snippet" where
  "updatedSnippet title' description' currentSnippet =
     currentSnippet\<lparr>title := js_or title' (title currentSnippet),
                    description := js_or description' (description currentSnippet)\<rparr>"

definition putVideo :: "world \<Rightarrow> jsstring \<Rightarrow> json \<Rightarrow> json \<Rightarrow> response io" where
  "putVideo w videoId title' description' =
     try_catch
       (if \<not> truthy title' \<and> \<not> truthy description'
        then ret (res_json 400 [(''error'', JStr (js ''Invalid input'')),
                                (''message'', JStr (js ''Title or description is required''))])
        else
        bind (ensureValidToken w) (\<lambda>tokenValid.
        if \<not> tokenValid then ret auth_required
        else
        bind (do_call (VideosList (js ''snippet'') videoId)
                (videos_list w (js ''snippet'') videoId)) (\<lambda>items.
        case items of
          None \<Rightarrow> ret video_not_found
        | Some [] \<Rightarrow> ret video_not_found
        | Some (item # rest) \<Rightarrow>
            let currentSnippet = snippet item;
                updated = updatedSnippet title' description' currentSnippet
            in
            bind (do_call (VideosUpdate videoId updated) (videos_update w videoId updated)) (\<lambda>data.
            bind (Log_create w ''UPDATE_VIDEO''
                    [(''videoId'', JStr videoId), (''title'', title'),
                     (''description'', description')]) (\<lambda>_.
            ret \<lparr>status = 200, body = Data data\<rparr>)))))
       (\<lambda>error.
        bind (Log_create w ''UPDATE_VIDEO_ERROR''
                [(''videoId'', JStr videoId), (''error'', JStr (message error))]) (\<lambda>_.
        ret (res_json 500 [(''error'', JStr (js ''Failed to update video'')),
                           (''message'', JStr (message error))])))"

subsection \<open>POST /api/video/:id/comment\<close>

text \<open>
  In the two comment handlers \<open>const { text } = req.body\<close> is declared inside the
  \<open>try\<close> block, so the \<open>text\<close> that the \<open>catch\<close> block reads is not that binding: the module
  has no other \<open>text\<close>, and evaluating the identifier throws a ReferenceError.
\<close>

definition text_in_catch :: "json io" where
  "text_in_catch = throw (ReferenceError ''text is not defined'')"

definition addComment_classify :: "js_error \<Rightarrow> nat \<times> jsstring" where
  "addComment_classify error =
     (if code error = Some 400 then
        (if sublist (js ''commentsDisabled'') (message error)
           then (400, js ''Comments are disabled for this video'')
         else if sublist (js ''videoNotFound'') (message error)
           then (404, js ''Video not found'')
         else if sublist (js ''forbidden'') (message error)
           then (403, js ''You don't have permission to comment on this video'')
         else (400, message error))
      else if code error = Some 401
        then (401, js ''Authentication required. Please login again.'')
      else if code error = Some 403
        then (403, js ''Permission denied. Check your YouTube API quota or permissions.'')
      else (500, js ''Failed to add comment''))"

definition postComment :: "world \<Rightarrow> jsstring \<Rightarrow> json \<Rightarrow> response io" where
  "postComment w videoId text =
     try_catch
       (if \<not> truthy text
        then ret (res_json 400 [(''error'', JStr (js ''Invalid input'')),
                                (''message'', JStr (js ''Comment text is required''))])
        else
        case text of
          JStr s \<Rightarrow>
            if length (trim s) = 0
            then ret (res_json 400 [(''error'', JStr (js ''Invalid input'')),
                                    (''message'', JStr (js ''Comment text is required''))])
            else if length s > 10000
            then ret (res_json 400
                   [(''error'', JStr (js ''Invalid input'')),
                    (''message'', JStr (js ''Comment text is too long (max 10000 characters)''))])
            else
            bind (ensureValidToken w) (\<lambda>tokenValid.
            if \<not> tokenValid then ret auth_required
            else
            bind (do_call (VideosList (js ''snippet,status'') videoId)
                    (videos_list w (js ''snippet,status'') videoId)) (\<lambda>items.
            case items of
              None \<Rightarrow> ret video_not_found
            | Some [] \<Rightarrow> ret video_not_found
            | Some (item # rest) \<Rightarrow>
                bind (do_call (CommentThreadsInsert videoId (trim s))
                        (commentThreads_insert w videoId (trim s))) (\<lambda>data.
                bind (Log_create w ''ADD_COMMENT''
                        [(''videoId'', JStr videoId), (''text'', text)]) (\<lambda>_.
                ret \<lparr>status = 200, body = Data data\<rparr>))))
        | _ \<Rightarrow> throw (TypeError ''text.trim is not a function''))
       (\<lambda>error.
        let (statusCode, errorMessage) = addComment_classify error in
        bind text_in_catch (\<lambda>text.
        bind (Log_create w ''ADD_COMMENT_ERROR''
                [(''videoId'', JStr videoId), (''text'', text),
                 (''error'', JStr (message error))]) (\<lambda>_.
        ret (res_json statusCode [(''error'', JStr (js ''Comment failed'')),
                                  (''message'', JStr errorMessage),
                                  (''details'', JStr (message error))]))))"

subsection \<open>POST /api/comment/:id/reply\<close>

definition reply_classify :: "js_error \<Rightarrow> nat \<times> jsstring" where
  "reply_classify error =
     (if code error = Some 400 then (400, message error)
      else if code error = Some 401
        then (401, js ''Authentication required. Please login again.'')
      else if code error = Some 403
        then (403, js ''Permission denied. Check your YouTube API quota or permissions.'')
      else if code error = Some 404
        then (404, js ''Comment not found or you don't have permission to reply.'')
      else (500, js ''Failed to reply to comment''))"

definition postReply :: "world \<Rightarrow> jsstring \<Rightarrow> json \<Rightarrow> response io" where
  "postReply w commentId text =
     try_catch
       (if \<not> truthy text
        then ret (res_json 400 [(''error'', JStr (js ''Invalid input'')),
                                (''message'', JStr (js ''Reply text is required''))])
        else
        case text of
          JStr s \<Rightarrow>
            if length (trim s) = 0
            then ret (res_json 400 [(''error'', JStr (js ''Invalid input'')),
                                    (''message'', JStr (js ''Reply text is required''))])
            else if length s > 10000
            then ret (res_json 400
                   [(''error'', JStr (js ''Invalid input'')),
                    (''message'', JStr (js ''Reply text is too long (max 10000 characters)''))])
            else
            bind (ensureValidToken w) (\<lambda>tokenValid.
            if \<not> tokenValid then ret auth_required
            else
            bind (do_call (CommentsInsert commentId (trim s))
                    (comments_insert w commentId (trim s))) (\<lambda>data.
            bind (Log_create w ''REPLY_COMMENT''
                    [(''commentId'', JStr commentId), (''text'', text)]) (\<lambda>_.
            ret \<lparr>status = 200, body = Data data\<rparr>)))
        | _ \<Rightarrow> throw (TypeError ''text.trim is not a function''))
       (\<lambda>error.
        let (statusCode, errorMessage) = reply_classify error in
        bind text_in_catch (\<lambda>text.
        bind (Log_create w ''REPLY_COMMENT_ERROR''
                [(''commentId'', JStr commentId), (''text'', text),
                 (''error'', JStr (message error))]) (\<lambda>_.
        ret (res_json statusCode [(''error'', JStr (js ''Reply failed'')),
                                  (''message'', JStr errorMessage),
                                  (''details'', JStr (message error))]))))"

subsection \<open>DELETE /api/comment/:id\<close>

definition delete_classify :: "js_error \<Rightarrow> nat \<times> jsstring" where
  "delete_classify error =
     (if code error = Some 400 then (400, message error)
      else if code error = Some 401
        then (401, js ''Authentication required. Please login again.'')
      else if code error = Some 403
        then (403, js ''Permission denied. You can only delete your own comments.'')
      else if code error = Some 404
        then (404, js ''Comment not found.'')
      else (500, js ''Failed to delete comment''))"

definition deleteComment :: "world \<Rightarrow> jsstring \<Rightarrow> response io" where
  "deleteComment w commentId =
     try_catch
       (bind (ensureValidToken w) (\<lambda>tokenValid.
        if \<not> tokenValid then ret auth_required
        else
        bind (do_call (CommentsDelete commentId)
                (case comments_delete w commentId of Some e \<Rightarrow> Inl e | None \<Rightarrow> Inr ())) (\<lambda>_.
        bind (Log_create w ''DELETE_COMMENT'' [(''commentId'', JStr commentId)]) (\<lambda>_.
        ret (res_json 200 [(''message'', JStr (js ''Comment deleted successfully''))])))))
       (\<lambda>error.
        let (statusCode, errorMessage) = delete_classify error in
        bind (Log_create w ''DELETE_COMMENT_ERROR''
                [(''commentId'', JStr commentId), (''error'', JStr (message error))]) (\<lambda>_.
        ret (res_json statusCode [(''error'', JStr (js ''Delete failed'')),
                                  (''message'', JStr errorMessage),
                                  (''details'', JStr (message error))])))"

subsection \<open>GET /api/notes\<close>












subsection \<open>GET /api/logs\<close>

text \<open>\<open>Log.find().sort({ createdAt: -1 })\<close>: the store returns the collection ordered by
  \<open>createdAt\<close>, latest first.\<close>

definition Log_find_sort_desc :: "world \<Rightarrow> log_entry list io" where
  "Log_find_sort_desc w =
     (\<lambda>s. case store_find w of
             Some e \<Rightarrow> (Inl e, s)
           | None \<Rightarrow> (Inr (sort_key (\<lambda>e. - createdAt e) (logs s)), s))"

definition getLogs :: "world \<Rightarrow> response io" where
  "getLogs w =
     try_catch
       (bind (Log_find_sort_desc w) (\<lambda>found.
        ret \<lparr>status = 200, body = LogsBody found\<rparr>))
       (\<lambda>error.
        ret (res_json 500 [(''error'', JStr (js ''Failed to fetch logs'')),
                           (''message'', JStr (message error))]))"

section \<open>Names for the statements\<close>

text \<open>The two HTTP 400 answers of the text validation, for a comment (\<open>''Comment''\<close>) and for
  a reply (\<open>''Reply''\<close>).\<close>

definition text_required :: "string \<Rightarrow> response" where
  "text_required what =
     res_json 400 [(''error'', JStr (js ''Invalid input'')),
                   (''message'', JStr (js (what @ '' text is required'')))]"

definition text_too_long :: "string \<Rightarrow> response" where
  "text_too_long what =
     res_json 400 [(''error'', JStr (js ''Invalid input'')),
                   (''message'', JStr (js (what @ '' text is too long (max 10000 characters)'')))]"

section \<open>Example collaborators and states\<close>

text \<open>Token States: as at startup (a refresh token only), after a refresh, with an expiry of
  0, and with an empty access token.\<close>

definition startup_credentials :: credentials where
  "startup_credentials = \<lparr>refresh_token = Some (js ''rt''), access_token = None, expiry_date = None\<rparr>"

definition fresh_credentials :: credentials where
  "fresh_credentials =
     \<lparr>refresh_token = Some (js ''rt''), access_token = Some (js ''at''), expiry_date = Some 5000\<rparr>"

definition epoch_credentials :: credentials where
  "epoch_credentials =
     \<lparr>refresh_token = Some (js ''rt''), access_token = Some (js ''at''), expiry_date = Some 0\<rparr>"

definition empty_token_credentials :: credentials where
  "empty_token_credentials =
     \<lparr>refresh_token = Some (js ''rt''), access_token = Some [], expiry_date = None\<rparr>"

text \<open>Collaborators: all of them answering; the OAuth provider refusing; every platform call
  failing with a given error; the platform finding no video.\<close>

definition provider_error :: js_error where
  "provider_error = \<lparr>code = Some 400, message = js ''invalid_grant''\<rparr>"

definition platform_error :: "int \<Rightarrow> js_error" where
  "platform_error c = \<lparr>code = Some c, message = js ''platform failure''\<rparr>"

text \<open>An example of a comparison that ignores case: the letters A to Z are taken for a to z.\<close>

definition letters_fold :: "nat \<Rightarrow> nat" where
  "letters_fold c = (if 0x41 \<le> c \<and> c \<le> 0x5A then c + 0x20 else c)"

definition sample_video :: video where
  "sample_video =
     \<lparr>snippet = \<lparr>title = JStr (js ''Old title''), description = JStr (js ''Old text''),
                  other_fields = [(''categoryId'', JStr (js ''22''))]\<rparr>,
      other_parts = []\<rparr>"

definition world_up :: world where
  "world_up =
     \<lparr>now = 1000, stamp = 1001, refresh_result = Inr fresh_credentials,
      videos_list = (\<lambda>part vid. Inr (Some [sample_video])),
      videos_update = (\<lambda>vid sn. Inr (JObj [(''id'', JStr vid)])),
      commentThreads_insert = (\<lambda>vid txt. Inr (JObj [(''id'', JStr (js ''c1''))])),
      comments_insert = (\<lambda>parent txt. Inr (JObj [(''id'', JStr (js ''c2''))])),
      comments_delete = (\<lambda>cid. None),
      log_create = (\<lambda>a d. None),
      store_find = None,
      caseless = (\<lambda>p c. letters_fold p = letters_fold c),
      dot_matches = (\<lambda>c. c \<noteq> 0x0A),
      regex_beyond = (\<lambda>q. Inl \<lparr>code = Some 2, message = js ''Regular expression is invalid''\<rparr>)\<rparr>"

definition world_no_refresh :: world where
  "world_no_refresh = world_up\<lparr>refresh_result := Inl provider_error\<rparr>"

definition world_failing :: "js_error \<Rightarrow> world" where
  "world_failing e =
     world_up\<lparr>videos_list := (\<lambda>part vid. Inl e),
              videos_update := (\<lambda>vid sn. Inl e),
              commentThreads_insert := (\<lambda>vid txt. Inl e),
              comments_insert := (\<lambda>parent txt. Inl e),
              comments_delete := (\<lambda>cid. Some e)\<rparr>"

definition world_no_video :: world where
  "world_no_video = world_up\<lparr>videos_list := (\<lambda>part vid. Inr (Some []))\<rparr>"

text \<open>Process states with empty collections, with given log entries, with given notes; a
  text of 10,000 letters.\<close>

definition state_of :: "credentials \<Rightarrow> state" where
  "state_of c = \<lparr>credentials = c, logs = [], note_docs = [], calls = []\<rparr>"

definition log_at :: "int \<Rightarrow> log_entry" where
  "log_at t = \<lparr>action = ''FETCH_VIDEO'', details = [], createdAt = t\<rparr>"

definition state_with_logs :: "log_entry list \<Rightarrow> state" where
  "state_with_logs es = \<lparr>credentials = fresh_credentials, logs = es, note_docs = [], calls = []\<rparr>"



definition ten_thousand_letters :: jsstring where
  "ten_thousand_letters = replicate 10000 0x61"



section \<open>Basic facts\<close>

lemmas io_defs = ret_def throw_def bind_def try_catch_def do_call_def get_credentials_def
  setCredentials_def Log_create_def

lemmas example_defs = provider_error_def startup_credentials_def fresh_credentials_def
  epoch_credentials_def empty_token_credentials_def sample_video_def world_up_def
  world_no_refresh_def state_of_def

lemma refresh_ok: "refresh_result w = Inr c \<Longrightarrow>
  refreshAccessToken w s = (Inr True, s\<lparr>calls := calls s @ [OAuthRefresh], credentials := c\<rparr>)"
  by (simp add: refreshAccessToken_def io_defs)

lemma refresh_fail: "refresh_result w = Inl e \<Longrightarrow>
  refreshAccessToken w s = (Inr False, s\<lparr>calls := calls s @ [OAuthRefresh]\<rparr>)"
  by (simp add: refreshAccessToken_def io_defs)

lemma ensure_cases:
  "ensureValidToken w s =
     (if token_missing (access_token (credentials s)) \<or> expired (expiry_date (credentials s)) (now w)
      then refreshAccessToken w (s\<lparr>calls := calls s @ [EnsureValidToken]\<rparr>)
      else (Inr True, s\<lparr>calls := calls s @ [EnsureValidToken]\<rparr>))"
  by (simp add: ensureValidToken_def refreshAccessToken_def io_defs Let_def split: sum.splits)

lemma ensure_returns:
  "\<exists>b s'. ensureValidToken w s = (Inr b, s') \<and> logs s' = logs s \<and> note_docs s' = note_docs s
     \<and> filter is_platform_call (calls s') = filter is_platform_call (calls s)"
proof (cases "refresh_result w")
  case (Inl e)
  then show ?thesis by (auto simp add: ensure_cases refresh_fail)
next
  case (Inr c)
  then show ?thesis by (auto simp add: ensure_cases refresh_ok)
qed

lemma world_up_simps:
  "now world_up = 1000" "stamp world_up = 1001" "refresh_result world_up = Inr fresh_credentials"
  "videos_list world_up part vid = Inr (Some [sample_video])"
  "videos_update world_up vid sn = Inr (JObj [(''id'', JStr vid)])"
  "commentThreads_insert world_up vid txt = Inr (JObj [(''id'', JStr (js ''c1''))])"
  "comments_insert world_up parent txt = Inr (JObj [(''id'', JStr (js ''c2''))])"
  "comments_delete world_up cid = None" "log_create world_up a d = None"
  "store_find world_up = None"
  by (simp_all add: world_up_def)

lemma world_no_refresh_simps:
  "now world_no_refresh = 1000" "stamp world_no_refresh = 1001"
  "refresh_result world_no_refresh = Inl provider_error"
  "videos_list world_no_refresh part vid = Inr (Some [sample_video])"
  "log_create world_no_refresh a d = None"
  by (simp_all add: world_no_refresh_def world_up_def)

lemma state_of_simps:
  "credentials (state_of c) = c" "logs (state_of c) = []" "note_docs (state_of c) = []"
  "calls (state_of c) = []"
  by (simp_all add: state_of_def)

lemma credentials_simps:
  "access_token startup_credentials = None" "expiry_date startup_credentials = None"
  "access_token fresh_credentials = Some (js ''at'')" "expiry_date fresh_credentials = Some 5000"
  "access_token epoch_credentials = Some (js ''at'')" "expiry_date epoch_credentials = Some 0"
  "access_token empty_token_credentials = Some []" "expiry_date empty_token_credentials = None"
  by (simp_all add: example_defs)

lemma js_nonempty: "js (c # cs) \<noteq> []"
  by (simp add: js_def)

lemmas example_simps = world_up_simps world_no_refresh_simps state_of_simps credentials_simps
  js_nonempty

section \<open>Token Manager: refresh on demand\<close>

text \<open>
  Claim C1, as worded, counts every recorded expiry and every present access token. The
  code tests both fields for truthiness, so an expiry of 0 is taken as no expiry (the token
  is kept although the clock is past it), and an empty access token is taken as no token
  (it is refreshed although no expiry is recorded).
\<close>

theorem ensureValidToken_refresh_counterexample:
  "access_token epoch_credentials = Some (js ''at'') \<and>
   expiry_date epoch_credentials = Some 0 \<and> 0 \<le> now world_up \<and>
   ensureValidToken world_up (state_of epoch_credentials) =
     (Inr True, \<lparr>credentials = epoch_credentials, logs = [], note_docs = [],
                 calls = [EnsureValidToken]\<rparr>) \<and>
   access_token empty_token_credentials = Some [] \<and>
   expiry_date empty_token_credentials = None \<and>
   calls (snd (ensureValidToken world_up (state_of empty_token_credentials))) =
     [EnsureValidToken, OAuthRefresh]"
  by (simp add: ensure_cases refresh_ok token_missing_def expired_def example_simps)

text \<open>
  Claim C1, amended: \<open>ensureValidToken\<close> invokes \<open>refreshAccessToken\<close> exactly when the
  access token is absent or the empty string, or a non-zero expiry is recorded and the
  current time is at or past it, and it then returns what \<open>refreshAccessToken\<close> returns (one
  call to the OAuth provider). Otherwise (a non-empty access token with no expiry, an expiry of
  0, or an expiry strictly in the future) it returns true without refreshing.
\<close>

theorem ensureValidToken_refresh_iff:
  "(access_token (credentials s) = None \<or> access_token (credentials s) = Some [] \<or>
      (\<exists>e. expiry_date (credentials s) = Some e \<and> e \<noteq> 0 \<and> e \<le> now w)
    \<longrightarrow> ensureValidToken w s = refreshAccessToken w (s\<lparr>calls := calls s @ [EnsureValidToken]\<rparr>)
        \<and> calls (snd (ensureValidToken w s)) = calls s @ [EnsureValidToken, OAuthRefresh])
   \<and>
   (\<not> (access_token (credentials s) = None \<or> access_token (credentials s) = Some [] \<or>
      (\<exists>e. expiry_date (credentials s) = Some e \<and> e \<noteq> 0 \<and> e \<le> now w))
    \<longrightarrow> ensureValidToken w s = (Inr True, s\<lparr>calls := calls s @ [EnsureValidToken]\<rparr>))"
  by (cases "refresh_result w")
     (auto simp add: ensure_cases refresh_ok refresh_fail token_missing_def expired_def
        split: option.splits)

theorem ensureValidToken_refresh_iff_witness:
  "ensureValidToken world_up (state_of startup_credentials) =
     refreshAccessToken world_up ((state_of startup_credentials)\<lparr>calls := [EnsureValidToken]\<rparr>) \<and>
   calls (snd (ensureValidToken world_up (state_of startup_credentials))) =
     [EnsureValidToken, OAuthRefresh] \<and>
   ensureValidToken world_up (state_of fresh_credentials) =
     (Inr True, (state_of fresh_credentials)\<lparr>calls := [EnsureValidToken]\<rparr>)"
  using ensureValidToken_refresh_iff [where s = "state_of startup_credentials" and w = world_up]
    ensureValidToken_refresh_iff [where s = "state_of fresh_credentials" and w = world_up]
  by (simp add: example_simps refresh_ok)

text \<open>
  Claim C2: when the provider answers with credentials, \<open>refreshAccessToken\<close> installs them
  (access token and expiry included) and returns true; when the provider call throws,
  it returns false and the credentials, like the rest of the stored state, are as before.
\<close>

theorem refreshAccessToken_atomic:
  "(refresh_result w = Inr c \<longrightarrow>
      fst (refreshAccessToken w s) = Inr True \<and>
      credentials (snd (refreshAccessToken w s)) = c \<and>
      access_token (credentials (snd (refreshAccessToken w s))) = access_token c \<and>
      expiry_date (credentials (snd (refreshAccessToken w s))) = expiry_date c)
   \<and>
   (refresh_result w = Inl e \<longrightarrow>
      fst (refreshAccessToken w s) = Inr False \<and>
      credentials (snd (refreshAccessToken w s)) = credentials s \<and>
      logs (snd (refreshAccessToken w s)) = logs s \<and>
      note_docs (snd (refreshAccessToken w s)) = note_docs s)"
  by (simp add: refresh_ok refresh_fail)

theorem refreshAccessToken_atomic_witness:
  "fst (refreshAccessToken world_up (state_of startup_credentials)) = Inr True \<and>
   credentials (snd (refreshAccessToken world_up (state_of startup_credentials))) = fresh_credentials \<and>
   fst (refreshAccessToken world_no_refresh (state_of fresh_credentials)) = Inr False \<and>
   credentials (snd (refreshAccessToken world_no_refresh (state_of fresh_credentials))) = fresh_credentials"
  using refreshAccessToken_atomic [where w = world_up and c = fresh_credentials
      and s = "state_of startup_credentials"]
    refreshAccessToken_atomic [where w = world_no_refresh and e = provider_error
      and s = "state_of fresh_credentials"]
  by (simp add: example_simps)

section \<open>Whitespace and trimming\<close>

lemma dropWhile_all_iff:
  "(\<forall>c\<in>set (dropWhile P t). P c) \<longleftrightarrow> dropWhile P t = []"
proof (cases "dropWhile P t")
  case Nil
  then show ?thesis by (auto dest: set_dropWhileD)
next
  case (Cons x xs)
  then have "\<not> P x"
    using hd_dropWhile [of P t] by simp
  with Cons show ?thesis by auto
qed

lemma trim_Nil_iff: "trim t = [] \<longleftrightarrow> (\<forall>c\<in>set t. is_whitespace c)"
proof -
  have "trim t = [] \<longleftrightarrow> (\<forall>c\<in>set (dropWhile is_whitespace t). is_whitespace c)"
    by (simp add: trim_def)
  also have "\<dots> \<longleftrightarrow> dropWhile is_whitespace t = []"
    by (rule dropWhile_all_iff)
  also have "\<dots> \<longleftrightarrow> (\<forall>c\<in>set t. is_whitespace c)"
    by simp
  finally show ?thesis .
qed

lemma trim_nonempty: "trim t \<noteq> [] \<Longrightarrow> t \<noteq> []"
  by (auto simp add: trim_def)

section \<open>Protected endpoints without a valid token\<close>

lemma denied_getVideo:
  "ensureValidToken w s = (Inr False, s1) \<Longrightarrow> getVideo w vid s = (Inr auth_required, s1)"
  by (simp add: getVideo_def io_defs)

lemma denied_putVideo:
  "ensureValidToken w s = (Inr False, s1) \<Longrightarrow> truthy title' \<or> truthy description' \<Longrightarrow>
   putVideo w vid title' description' s = (Inr auth_required, s1)"
  by (auto simp add: putVideo_def io_defs)

lemma denied_postComment:
  "ensureValidToken w s = (Inr False, s1) \<Longrightarrow> trim t \<noteq> [] \<Longrightarrow> length t \<le> 10000 \<Longrightarrow>
   postComment w vid (JStr t) s = (Inr auth_required, s1)"
  by (frule trim_nonempty) (simp add: postComment_def io_defs)

lemma denied_postReply:
  "ensureValidToken w s = (Inr False, s1) \<Longrightarrow> trim t \<noteq> [] \<Longrightarrow> length t \<le> 10000 \<Longrightarrow>
   postReply w cid (JStr t) s = (Inr auth_required, s1)"
  by (frule trim_nonempty) (simp add: postReply_def io_defs)

lemma denied_deleteComment:
  "ensureValidToken w s = (Inr False, s1) \<Longrightarrow> deleteComment w cid s = (Inr auth_required, s1)"
  by (simp add: deleteComment_def io_defs)

lemma ensure_platform_calls:
  "filter is_platform_call (calls (snd (ensureValidToken w s))) = filter is_platform_call (calls s)"
  using ensure_returns [of w s] by auto

text \<open>
  Claim C3: in each of the five protected handlers (GET and PUT video, add comment, reply,
  delete comment), when the call to \<open>ensureValidToken\<close> returns false the response is
  HTTP 401 with the authentication-required body, and the handler has made no call to the
  video platform. The PUT and comment handlers reach the token check once their input
  has passed validation.
\<close>

theorem protected_endpoints_require_token:
  assumes "fst (ensureValidToken w s) = Inr False"
  shows "getVideo w vid s = (Inr auth_required, snd (ensureValidToken w s)) \<and>
    (truthy title' \<or> truthy description' \<longrightarrow>
       putVideo w vid title' description' s = (Inr auth_required, snd (ensureValidToken w s))) \<and>
    (trim t \<noteq> [] \<and> length t \<le> 10000 \<longrightarrow>
       postComment w vid (JStr t) s = (Inr auth_required, snd (ensureValidToken w s)) \<and>
       postReply w cid (JStr t) s = (Inr auth_required, snd (ensureValidToken w s))) \<and>
    deleteComment w cid s = (Inr auth_required, snd (ensureValidToken w s)) \<and>
    status auth_required = 401 \<and>
    body auth_required = Obj [(''error'', JStr (js ''Authentication required'')),
                              (''message'', JStr (js ''Please login again''))] \<and>
    filter is_platform_call (calls (snd (ensureValidToken w s))) =
      filter is_platform_call (calls s)"
proof -
  from assms have run: "ensureValidToken w s = (Inr False, snd (ensureValidToken w s))"
    by (metis prod.collapse)
  show ?thesis
    using denied_getVideo [OF run] denied_putVideo [OF run] denied_postComment [OF run]
      denied_postReply [OF run] denied_deleteComment [OF run]
    by (simp add: ensure_platform_calls auth_required_def res_json_def)
qed

lemma trim_hello: "trim (js ''hello'') = js ''hello''"
  by (simp add: trim_def js_def is_whitespace_def)

theorem protected_endpoints_require_token_witness:
  "fst (ensureValidToken world_no_refresh (state_of startup_credentials)) = Inr False \<and>
   getVideo world_no_refresh (js ''v1'') (state_of startup_credentials) =
     (Inr auth_required, (state_of startup_credentials)\<lparr>calls := [EnsureValidToken, OAuthRefresh]\<rparr>) \<and>
   putVideo world_no_refresh (js ''v1'') (JStr (js ''New'')) JUndefined (state_of startup_credentials) =
     (Inr auth_required, (state_of startup_credentials)\<lparr>calls := [EnsureValidToken, OAuthRefresh]\<rparr>) \<and>
   postComment world_no_refresh (js ''v1'') (JStr (js ''hello'')) (state_of startup_credentials) =
     (Inr auth_required, (state_of startup_credentials)\<lparr>calls := [EnsureValidToken, OAuthRefresh]\<rparr>) \<and>
   postReply world_no_refresh (js ''c1'') (JStr (js ''hello'')) (state_of startup_credentials) =
     (Inr auth_required, (state_of startup_credentials)\<lparr>calls := [EnsureValidToken, OAuthRefresh]\<rparr>) \<and>
   deleteComment world_no_refresh (js ''c1'') (state_of startup_credentials) =
     (Inr auth_required, (state_of startup_credentials)\<lparr>calls := [EnsureValidToken, OAuthRefresh]\<rparr>)"
proof -
  have run: "ensureValidToken world_no_refresh (state_of startup_credentials) =
      (Inr False, (state_of startup_credentials)\<lparr>calls := [EnsureValidToken, OAuthRefresh]\<rparr>)"
    by (simp add: ensure_cases refresh_fail token_missing_def example_simps)
  then have denied: "fst (ensureValidToken world_no_refresh (state_of startup_credentials)) = Inr False"
    by simp
  have valid: "trim (js ''hello'') \<noteq> [] \<and> length (js ''hello'') \<le> 10000"
    by (simp add: trim_hello) (simp add: js_def)
  show ?thesis
    using protected_endpoints_require_token [OF denied, where vid = "js ''v1''" and cid = "js ''c1''"
        and title' = "JStr (js ''New'')" and description' = JUndefined and t = "js ''hello''"]
      valid
    by (simp add: run example_simps)
qed

section \<open>Validation of comment and reply text\<close>

lemma ensure_calls:
  "\<exists>b s1 cs. ensureValidToken w s = (Inr b, s1) \<and> calls s1 = calls s @ EnsureValidToken # cs \<and>
      logs s1 = logs s \<and> (\<forall>c\<in>set cs. \<not> is_platform_call c)"
proof (cases "refresh_result w")
  case (Inl e)
  then show ?thesis by (auto simp add: ensure_cases refresh_fail)
next
  case (Inr c)
  then show ?thesis by (auto simp add: ensure_cases refresh_ok)
qed

lemma postComment_falsy:
  "\<not> truthy text \<Longrightarrow>
   postComment w vid text s =
     (Inr (res_json 400 [(''error'', JStr (js ''Invalid input'')),
                         (''message'', JStr (js ''Comment text is required''))]), s)"
  by (simp add: postComment_def io_defs)

lemma postComment_blank:
  "trim t = [] \<Longrightarrow>
   postComment w vid (JStr t) s =
     (Inr (res_json 400 [(''error'', JStr (js ''Invalid input'')),
                         (''message'', JStr (js ''Comment text is required''))]), s)"
  by (simp add: postComment_def io_defs)

lemma postComment_long:
  "trim t \<noteq> [] \<Longrightarrow> length t > 10000 \<Longrightarrow>
   postComment w vid (JStr t) s =
     (Inr (res_json 400
        [(''error'', JStr (js ''Invalid input'')),
         (''message'', JStr (js ''Comment text is too long (max 10000 characters)''))]), s)"
  by (frule trim_nonempty) (simp add: postComment_def io_defs)

lemma postReply_falsy:
  "\<not> truthy text \<Longrightarrow>
   postReply w cid text s =
     (Inr (res_json 400 [(''error'', JStr (js ''Invalid input'')),
                         (''message'', JStr (js ''Reply text is required''))]), s)"
  by (simp add: postReply_def io_defs)

lemma postReply_blank:
  "trim t = [] \<Longrightarrow>
   postReply w cid (JStr t) s =
     (Inr (res_json 400 [(''error'', JStr (js ''Invalid input'')),
                         (''message'', JStr (js ''Reply text is required''))]), s)"
  by (simp add: postReply_def io_defs)

lemma postReply_long:
  "trim t \<noteq> [] \<Longrightarrow> length t > 10000 \<Longrightarrow>
   postReply w cid (JStr t) s =
     (Inr (res_json 400
        [(''error'', JStr (js ''Invalid input'')),
         (''message'', JStr (js ''Reply text is too long (max 10000 characters)''))]), s)"
  by (frule trim_nonempty) (simp add: postReply_def io_defs)

text \<open>Past validation, the first thing either handler does is to call the Token Manager.\<close>

lemma postComment_valid_calls:
  assumes "trim t \<noteq> []" "length t \<le> 10000"
  shows "\<exists>cs. calls (snd (postComment w vid (JStr t) s)) = calls s @ EnsureValidToken # cs"
proof -
  from assms(1) have ne: "t \<noteq> []" by (rule trim_nonempty)
  obtain b s1 cs where run: "ensureValidToken w s = (Inr b, s1)"
    and cs: "calls s1 = calls s @ EnsureValidToken # cs"
    using ensure_calls [of w s] by blast
  show ?thesis
    using assms ne run cs
    by (auto simp add: postComment_def io_defs text_in_catch_def
          split: sum.splits option.splits list.splits prod.splits)
qed

lemma postReply_valid_calls:
  assumes "trim t \<noteq> []" "length t \<le> 10000"
  shows "\<exists>cs. calls (snd (postReply w cid (JStr t) s)) = calls s @ EnsureValidToken # cs"
proof -
  from assms(1) have ne: "t \<noteq> []" by (rule trim_nonempty)
  obtain b s1 cs where run: "ensureValidToken w s = (Inr b, s1)"
    and cs: "calls s1 = calls s @ EnsureValidToken # cs"
    using ensure_calls [of w s] by blast
  show ?thesis
    using assms ne run cs
    by (auto simp add: postReply_def io_defs text_in_catch_def
          split: sum.splits option.splits list.splits prod.splits)
qed

text \<open>
  Claim C4: in both comment handlers a text that is missing (or falsy in any other way),
  empty or made of whitespace only is answered with HTTP 400, and so is a text longer
  than 10,000 code units; in each rejecting case the state is untouched: no call to the
  Token Manager or to the platform was made. A text of exactly 10,000 code units (not all
  of them whitespace, which the first clause rejects) passes validation: the handler goes
  on to call the Token Manager.
\<close>

theorem comment_text_validation:
  "(\<not> truthy given \<longrightarrow>
      postComment w vid given s = (Inr (text_required ''Comment''), s) \<and>
      postReply w cid given s = (Inr (text_required ''Reply''), s)) \<and>
   ((\<forall>c\<in>set t. is_whitespace c) \<longrightarrow>
      postComment w vid (JStr t) s = (Inr (text_required ''Comment''), s) \<and>
      postReply w cid (JStr t) s = (Inr (text_required ''Reply''), s)) \<and>
   (length t > 10000 \<longrightarrow>
      snd (postComment w vid (JStr t) s) = s \<and>
      snd (postReply w cid (JStr t) s) = s \<and>
      fst (postComment w vid (JStr t) s) \<in>
        {Inr (text_required ''Comment''), Inr (text_too_long ''Comment'')} \<and>
      fst (postReply w cid (JStr t) s) \<in>
        {Inr (text_required ''Reply''), Inr (text_too_long ''Reply'')}) \<and>
   (length t = 10000 \<and> (\<exists>c\<in>set t. \<not> is_whitespace c) \<longrightarrow>
      (\<exists>cs. calls (snd (postComment w vid (JStr t) s)) = calls s @ EnsureValidToken # cs) \<and>
      (\<exists>cs. calls (snd (postReply w cid (JStr t) s)) = calls s @ EnsureValidToken # cs)) \<and>
   status (text_required what) = 400 \<and> status (text_too_long what) = 400"
proof -
  have falsy: "\<not> truthy given \<longrightarrow>
      postComment w vid given s = (Inr (text_required ''Comment''), s) \<and>
      postReply w cid given s = (Inr (text_required ''Reply''), s)"
    by (simp add: postComment_falsy postReply_falsy text_required_def)
  have blank: "(\<forall>c\<in>set t. is_whitespace c) \<longrightarrow>
      postComment w vid (JStr t) s = (Inr (text_required ''Comment''), s) \<and>
      postReply w cid (JStr t) s = (Inr (text_required ''Reply''), s)"
    using trim_Nil_iff [of t]
    by (simp add: postComment_blank postReply_blank text_required_def)
  have long: "length t > 10000 \<longrightarrow>
      snd (postComment w vid (JStr t) s) = s \<and>
      snd (postReply w cid (JStr t) s) = s \<and>
      fst (postComment w vid (JStr t) s) \<in>
        {Inr (text_required ''Comment''), Inr (text_too_long ''Comment'')} \<and>
      fst (postReply w cid (JStr t) s) \<in>
        {Inr (text_required ''Reply''), Inr (text_too_long ''Reply'')}"
    by (cases "trim t = []")
       (simp_all add: postComment_blank postReply_blank postComment_long postReply_long
          text_required_def text_too_long_def)
  have exact: "length t = 10000 \<and> (\<exists>c\<in>set t. \<not> is_whitespace c) \<longrightarrow>
      (\<exists>cs. calls (snd (postComment w vid (JStr t) s)) = calls s @ EnsureValidToken # cs) \<and>
      (\<exists>cs. calls (snd (postReply w cid (JStr t) s)) = calls s @ EnsureValidToken # cs)"
    using trim_Nil_iff [of t] postComment_valid_calls [of t w vid s]
      postReply_valid_calls [of t w cid s]
    by auto
  have codes: "status (text_required what) = 400 \<and> status (text_too_long what) = 400"
    by (simp add: text_required_def text_too_long_def res_json_def)
  from falsy blank long exact codes show ?thesis by blast
qed

lemma whitespace_examples:
  "is_whitespace 0x20" "is_whitespace 0x09" "\<not> is_whitespace 0x61"
  by (simp_all add: is_whitespace_def)

theorem comment_text_validation_witness:
  "postComment world_up (js ''v1'') JUndefined (state_of fresh_credentials) =
     (Inr (text_required ''Comment''), state_of fresh_credentials) \<and>
   postReply world_up (js ''c1'') JUndefined (state_of fresh_credentials) =
     (Inr (text_required ''Reply''), state_of fresh_credentials) \<and>
   postComment world_up (js ''v1'') (JStr [0x20, 0x09]) (state_of fresh_credentials) =
     (Inr (text_required ''Comment''), state_of fresh_credentials) \<and>
   postReply world_up (js ''c1'') (JStr [0x20, 0x09]) (state_of fresh_credentials) =
     (Inr (text_required ''Reply''), state_of fresh_credentials) \<and>
   snd (postComment world_up (js ''v1'') (JStr (replicate 10001 0x61)) (state_of fresh_credentials)) =
     state_of fresh_credentials \<and>
   snd (postReply world_up (js ''c1'') (JStr (replicate 10001 0x61)) (state_of fresh_credentials)) =
     state_of fresh_credentials \<and>
   hd (calls (snd (postComment world_up (js ''v1'') (JStr (replicate 10000 0x61))
         (state_of fresh_credentials)))) = EnsureValidToken \<and>
   hd (calls (snd (postReply world_up (js ''c1'') (JStr (replicate 10000 0x61))
         (state_of fresh_credentials)))) = EnsureValidToken"
  using comment_text_validation [where given = JUndefined and what = "''Comment''" and w = world_up and vid = "js ''v1''"
      and cid = "js ''c1''" and s = "state_of fresh_credentials" and t = "[0x20, 0x09]"]
    comment_text_validation [where given = JUndefined and what = "''Comment''" and w = world_up and vid = "js ''v1''"
      and cid = "js ''c1''" and s = "state_of fresh_credentials" and t = "replicate 10001 0x61"]
    comment_text_validation [where given = JUndefined and what = "''Comment''" and w = world_up and vid = "js ''v1''"
      and cid = "js ''c1''" and s = "state_of fresh_credentials" and t = "replicate 10000 0x61"]
  by (simp add: whitespace_examples example_simps) auto

section \<open>What the comment handlers send and record\<close>

lemma trim_trailing_space:
  assumes "xs \<noteq> []" "\<forall>c\<in>set xs. \<not> is_whitespace c"
  shows "trim (xs @ [0x20]) = xs"
proof -
  from assms have first_ok: "\<not> is_whitespace (hd xs)" and last_ok: "\<not> is_whitespace (hd (rev xs))"
    by (simp_all add: hd_rev)
  from assms(1) first_ok have "dropWhile is_whitespace (xs @ [0x20]) = xs @ [0x20]"
    by (simp add: dropWhile_eq_self_iff)
  moreover have "dropWhile is_whitespace (0x20 # rev xs) = rev xs"
    using last_ok by (simp add: is_whitespace_def dropWhile_eq_self_iff)
  ultimately show ?thesis by (simp add: trim_def)
qed

lemma postComment_success:
  assumes "trim t \<noteq> []" "length t \<le> 10000"
    and "ensureValidToken w s = (Inr True, s1)"
    and "videos_list w (js ''snippet,status'') vid = Inr (Some (item # rest))"
    and "commentThreads_insert w vid (trim t) = Inr d"
    and "log_create w ''ADD_COMMENT'' [(''videoId'', JStr vid), (''text'', JStr t)] = None"
  shows "postComment w vid (JStr t) s =
    (Inr \<lparr>status = 200, body = Data d\<rparr>,
     s1\<lparr>calls := calls s1 @ [VideosList (js ''snippet,status'') vid,
                               CommentThreadsInsert vid (trim t)],
        logs := logs s1 @ [\<lparr>action = ''ADD_COMMENT'',
                             details = [(''videoId'', JStr vid), (''text'', JStr t)],
                             createdAt = stamp w\<rparr>]\<rparr>)"
  using assms trim_nonempty [OF assms(1)]
  by (simp add: postComment_def io_defs)

lemma postReply_success:
  assumes "trim t \<noteq> []" "length t \<le> 10000"
    and "ensureValidToken w s = (Inr True, s1)"
    and "comments_insert w cid (trim t) = Inr d"
    and "log_create w ''REPLY_COMMENT'' [(''commentId'', JStr cid), (''text'', JStr t)] = None"
  shows "postReply w cid (JStr t) s =
    (Inr \<lparr>status = 200, body = Data d\<rparr>,
     s1\<lparr>calls := calls s1 @ [CommentsInsert cid (trim t)],
        logs := logs s1 @ [\<lparr>action = ''REPLY_COMMENT'',
                             details = [(''commentId'', JStr cid), (''text'', JStr t)],
                             createdAt = stamp w\<rparr>]\<rparr>)"
  using assms trim_nonempty [OF assms(1)]
  by (simp add: postReply_def io_defs)

lemma postComment_sends_trimmed:
  assumes "CommentThreadsInsert v x \<in> set (calls (snd (postComment w vid (JStr t) s)))"
  shows "CommentThreadsInsert v x \<in> set (calls s) \<or> (v = vid \<and> x = trim t)"
proof -
  obtain b s1 cs where run: "ensureValidToken w s = (Inr b, s1)"
    and cs: "calls s1 = calls s @ EnsureValidToken # cs" "\<forall>c\<in>set cs. \<not> is_platform_call c"
    using ensure_calls [of w s] by blast
  then have "CommentThreadsInsert v x \<notin> set cs" by auto
  with assms run cs(1) show ?thesis
    by (auto simp add: postComment_def io_defs text_in_catch_def
          split: if_splits sum.splits option.splits list.splits prod.splits json.splits)
qed

lemma postReply_sends_trimmed:
  assumes "CommentsInsert v x \<in> set (calls (snd (postReply w cid (JStr t) s)))"
  shows "CommentsInsert v x \<in> set (calls s) \<or> (v = cid \<and> x = trim t)"
proof -
  obtain b s1 cs where run: "ensureValidToken w s = (Inr b, s1)"
    and cs: "calls s1 = calls s @ EnsureValidToken # cs" "\<forall>c\<in>set cs. \<not> is_platform_call c"
    using ensure_calls [of w s] by blast
  then have "CommentsInsert v x \<notin> set cs" by auto
  with assms run cs(1) show ?thesis
    by (auto simp add: postReply_def io_defs text_in_catch_def
          split: if_splits sum.splits option.splits list.splits prod.splits json.splits)
qed

text \<open>
  Claim C10: for a comment or a reply that passes validation, the text handed to the
  platform is the trimmed text (no insert call of the handler carries anything else), the
  Activity Log entry of the successful request records the text as it was given, and the
  10,000 limit is applied to the untrimmed text: 10,000 non-whitespace code units followed
  by one space are rejected although their trimmed length is 10,000.
\<close>

theorem comment_text_trimmed_for_platform:
  "(trim t \<noteq> [] \<and> length t \<le> 10000 \<and> fst (ensureValidToken w s) = Inr True \<and>
    videos_list w (js ''snippet,status'') vid = Inr (Some (item # rest)) \<and>
    commentThreads_insert w vid (trim t) = Inr d \<and>
    log_create w ''ADD_COMMENT'' [(''videoId'', JStr vid), (''text'', JStr t)] = None \<longrightarrow>
      fst (postComment w vid (JStr t) s) = Inr \<lparr>status = 200, body = Data d\<rparr> \<and>
      calls (snd (postComment w vid (JStr t) s)) =
        calls (snd (ensureValidToken w s)) @
          [VideosList (js ''snippet,status'') vid, CommentThreadsInsert vid (trim t)] \<and>
      logs (snd (postComment w vid (JStr t) s)) =
        logs s @ [\<lparr>action = ''ADD_COMMENT'',
                    details = [(''videoId'', JStr vid), (''text'', JStr t)],
                    createdAt = stamp w\<rparr>]) \<and>
   (trim t \<noteq> [] \<and> length t \<le> 10000 \<and> fst (ensureValidToken w s) = Inr True \<and>
    comments_insert w cid (trim t) = Inr d' \<and>
    log_create w ''REPLY_COMMENT'' [(''commentId'', JStr cid), (''text'', JStr t)] = None \<longrightarrow>
      fst (postReply w cid (JStr t) s) = Inr \<lparr>status = 200, body = Data d'\<rparr> \<and>
      calls (snd (postReply w cid (JStr t) s)) =
        calls (snd (ensureValidToken w s)) @ [CommentsInsert cid (trim t)] \<and>
      logs (snd (postReply w cid (JStr t) s)) =
        logs s @ [\<lparr>action = ''REPLY_COMMENT'',
                    details = [(''commentId'', JStr cid), (''text'', JStr t)],
                    createdAt = stamp w\<rparr>]) \<and>
   (\<forall>v x. CommentThreadsInsert v x \<in> set (calls (snd (postComment w vid (JStr t) s))) \<longrightarrow>
      CommentThreadsInsert v x \<in> set (calls s) \<or> (v = vid \<and> x = trim t)) \<and>
   (\<forall>v x. CommentsInsert v x \<in> set (calls (snd (postReply w cid (JStr t) s))) \<longrightarrow>
      CommentsInsert v x \<in> set (calls s) \<or> (v = cid \<and> x = trim t)) \<and>
   (length xs = 10000 \<and> (\<forall>c\<in>set xs. \<not> is_whitespace c) \<longrightarrow>
      length (trim (xs @ [0x20])) = 10000 \<and>
      postComment w vid (JStr (xs @ [0x20])) s = (Inr (text_too_long ''Comment''), s) \<and>
      postReply w cid (JStr (xs @ [0x20])) s = (Inr (text_too_long ''Reply''), s))"
proof -
  obtain b s1 cs where run: "ensureValidToken w s = (Inr b, s1)" and same: "logs s1 = logs s"
    using ensure_calls [of w s] by blast
  have comment_ok: "trim t \<noteq> [] \<and> length t \<le> 10000 \<and> fst (ensureValidToken w s) = Inr True \<and>
    videos_list w (js ''snippet,status'') vid = Inr (Some (item # rest)) \<and>
    commentThreads_insert w vid (trim t) = Inr d \<and>
    log_create w ''ADD_COMMENT'' [(''videoId'', JStr vid), (''text'', JStr t)] = None \<longrightarrow>
      fst (postComment w vid (JStr t) s) = Inr \<lparr>status = 200, body = Data d\<rparr> \<and>
      calls (snd (postComment w vid (JStr t) s)) =
        calls (snd (ensureValidToken w s)) @
          [VideosList (js ''snippet,status'') vid, CommentThreadsInsert vid (trim t)] \<and>
      logs (snd (postComment w vid (JStr t) s)) =
        logs s @ [\<lparr>action = ''ADD_COMMENT'',
                    details = [(''videoId'', JStr vid), (''text'', JStr t)],
                    createdAt = stamp w\<rparr>]"
    using run same by (auto simp add: postComment_success)
  have reply_ok: "trim t \<noteq> [] \<and> length t \<le> 10000 \<and> fst (ensureValidToken w s) = Inr True \<and>
    comments_insert w cid (trim t) = Inr d' \<and>
    log_create w ''REPLY_COMMENT'' [(''commentId'', JStr cid), (''text'', JStr t)] = None \<longrightarrow>
      fst (postReply w cid (JStr t) s) = Inr \<lparr>status = 200, body = Data d'\<rparr> \<and>
      calls (snd (postReply w cid (JStr t) s)) =
        calls (snd (ensureValidToken w s)) @ [CommentsInsert cid (trim t)] \<and>
      logs (snd (postReply w cid (JStr t) s)) =
        logs s @ [\<lparr>action = ''REPLY_COMMENT'',
                    details = [(''commentId'', JStr cid), (''text'', JStr t)],
                    createdAt = stamp w\<rparr>]"
    using run same by (auto simp add: postReply_success)
  have sent: "(\<forall>v x. CommentThreadsInsert v x \<in> set (calls (snd (postComment w vid (JStr t) s))) \<longrightarrow>
      CommentThreadsInsert v x \<in> set (calls s) \<or> (v = vid \<and> x = trim t)) \<and>
   (\<forall>v x. CommentsInsert v x \<in> set (calls (snd (postReply w cid (JStr t) s))) \<longrightarrow>
      CommentsInsert v x \<in> set (calls s) \<or> (v = cid \<and> x = trim t))"
    using postComment_sends_trimmed [of _ _ w vid t s] postReply_sends_trimmed [of _ _ w cid t s]
    by blast
  have limit: "length xs = 10000 \<and> (\<forall>c\<in>set xs. \<not> is_whitespace c) \<longrightarrow>
      length (trim (xs @ [0x20])) = 10000 \<and>
      postComment w vid (JStr (xs @ [0x20])) s = (Inr (text_too_long ''Comment''), s) \<and>
      postReply w cid (JStr (xs @ [0x20])) s = (Inr (text_too_long ''Reply''), s)"
  proof
    assume given: "length xs = 10000 \<and> (\<forall>c\<in>set xs. \<not> is_whitespace c)"
    then have "xs \<noteq> []" by auto
    with given have kept: "trim (xs @ [0x20]) = xs"
      by (simp add: trim_trailing_space)
    with \<open>xs \<noteq> []\<close> have "trim (xs @ [0x20]) \<noteq> []" by simp
    moreover from given have "length (xs @ [0x20]) > 10000" by simp
    ultimately show "length (trim (xs @ [0x20])) = 10000 \<and>
      postComment w vid (JStr (xs @ [0x20])) s = (Inr (text_too_long ''Comment''), s) \<and>
      postReply w cid (JStr (xs @ [0x20])) s = (Inr (text_too_long ''Reply''), s)"
      using given kept
      by (simp add: postComment_long postReply_long text_too_long_def)
  qed
  show ?thesis
    by (intro conjI) (rule comment_ok reply_ok conjunct1 [OF sent] conjunct2 [OF sent] limit)+
qed

lemma ten_thousand_letters_simps:
  "length ten_thousand_letters = 10000" "set ten_thousand_letters = {0x61}"
  by (simp_all add: ten_thousand_letters_def)

lemma trim_padded_hi: "trim [0x20, 0x68, 0x69, 0x20] = [0x68, 0x69]"
  by (simp add: trim_def is_whitespace_def)

lemma fresh_token_valid:
  "ensureValidToken world_up (state_of fresh_credentials) =
     (Inr True, (state_of fresh_credentials)\<lparr>calls := [EnsureValidToken]\<rparr>)"
  by (simp add: ensure_cases token_missing_def expired_def example_simps)

theorem comment_text_trimmed_for_platform_witness:
  "fst (postComment world_up (js ''v1'') (JStr [0x20, 0x68, 0x69, 0x20]) (state_of fresh_credentials)) =
     Inr \<lparr>status = 200, body = Data (JObj [(''id'', JStr (js ''c1''))])\<rparr> \<and>
   calls (snd (postComment world_up (js ''v1'') (JStr [0x20, 0x68, 0x69, 0x20])
       (state_of fresh_credentials))) =
     [EnsureValidToken, VideosList (js ''snippet,status'') (js ''v1''),
      CommentThreadsInsert (js ''v1'') [0x68, 0x69]] \<and>
   logs (snd (postComment world_up (js ''v1'') (JStr [0x20, 0x68, 0x69, 0x20])
       (state_of fresh_credentials))) =
     [\<lparr>action = ''ADD_COMMENT'',
       details = [(''videoId'', JStr (js ''v1'')), (''text'', JStr [0x20, 0x68, 0x69, 0x20])],
       createdAt = 1001\<rparr>] \<and>
   calls (snd (postReply world_up (js ''c9'') (JStr [0x20, 0x68, 0x69, 0x20])
       (state_of fresh_credentials))) =
     [EnsureValidToken, CommentsInsert (js ''c9'') [0x68, 0x69]] \<and>
   logs (snd (postReply world_up (js ''c9'') (JStr [0x20, 0x68, 0x69, 0x20])
       (state_of fresh_credentials))) =
     [\<lparr>action = ''REPLY_COMMENT'',
       details = [(''commentId'', JStr (js ''c9'')), (''text'', JStr [0x20, 0x68, 0x69, 0x20])],
       createdAt = 1001\<rparr>] \<and>
   length (trim (ten_thousand_letters @ [0x20])) = 10000 \<and>
   postComment world_up (js ''v1'') (JStr (ten_thousand_letters @ [0x20])) (state_of fresh_credentials) =
     (Inr (text_too_long ''Comment''), state_of fresh_credentials) \<and>
   postReply world_up (js ''c9'') (JStr (ten_thousand_letters @ [0x20])) (state_of fresh_credentials) =
     (Inr (text_too_long ''Reply''), state_of fresh_credentials)"
proof -
  note main = comment_text_trimmed_for_platform [where w = world_up
      and s = "state_of fresh_credentials"
      and vid = "js ''v1''" and cid = "js ''c9''" and t = "[0x20, 0x68, 0x69, 0x20]"
      and item = sample_video and rest = "[]" and d = "JObj [(''id'', JStr (js ''c1''))]"
      and d' = "JObj [(''id'', JStr (js ''c2''))]" and xs = ten_thousand_letters]
  have comment_given:
    "trim [0x20, 0x68, 0x69, 0x20] \<noteq> [] \<and> length [0x20, 0x68, 0x69, 0x20 :: 16 word] \<le> 10000 \<and>
     fst (ensureValidToken world_up (state_of fresh_credentials)) = Inr True \<and>
     videos_list world_up (js ''snippet,status'') (js ''v1'') = Inr (Some (sample_video # [])) \<and>
     commentThreads_insert world_up (js ''v1'') (trim [0x20, 0x68, 0x69, 0x20]) =
       Inr (JObj [(''id'', JStr (js ''c1''))]) \<and>
     log_create world_up ''ADD_COMMENT''
       [(''videoId'', JStr (js ''v1'')), (''text'', JStr [0x20, 0x68, 0x69, 0x20])] = None"
    by (simp add: trim_padded_hi fresh_token_valid example_simps)
  have reply_given:
    "trim [0x20, 0x68, 0x69, 0x20] \<noteq> [] \<and> length [0x20, 0x68, 0x69, 0x20 :: 16 word] \<le> 10000 \<and>
     fst (ensureValidToken world_up (state_of fresh_credentials)) = Inr True \<and>
     comments_insert world_up (js ''c9'') (trim [0x20, 0x68, 0x69, 0x20]) =
       Inr (JObj [(''id'', JStr (js ''c2''))]) \<and>
     log_create world_up ''REPLY_COMMENT''
       [(''commentId'', JStr (js ''c9'')), (''text'', JStr [0x20, 0x68, 0x69, 0x20])] = None"
    by (simp add: trim_padded_hi fresh_token_valid example_simps)
  have limit_given:
    "length ten_thousand_letters = 10000 \<and> (\<forall>c\<in>set ten_thousand_letters. \<not> is_whitespace c)"
    by (simp add: ten_thousand_letters_simps whitespace_examples)
  note comment_result = main [THEN conjunct1, rule_format, OF comment_given]
  note reply_result = main [THEN conjunct2, THEN conjunct1, rule_format, OF reply_given]
  note limit_result =
    main [THEN conjunct2, THEN conjunct2, THEN conjunct2, THEN conjunct2, rule_format,
      OF limit_given]
  show ?thesis
    using comment_result reply_result limit_result
    by (simp add: trim_padded_hi fresh_token_valid example_simps)
qed

section \<open>Platform failures\<close>

lemma world_failing_simps:
  "now (world_failing e) = 1000" "stamp (world_failing e) = 1001"
  "refresh_result (world_failing e) = Inr fresh_credentials"
  "videos_list (world_failing e) part vid = Inl e"
  "videos_update (world_failing e) vid sn = Inl e"
  "commentThreads_insert (world_failing e) vid txt = Inl e"
  "comments_insert (world_failing e) parent txt = Inl e"
  "comments_delete (world_failing e) cid = Some e"
  "log_create (world_failing e) a d = None"
  by (simp_all add: world_failing_def world_up_def)

lemma world_no_video_simps:
  "now world_no_video = 1000" "stamp world_no_video = 1001"
  "videos_list world_no_video part vid = Inr (Some [])"
  "log_create world_no_video a d = None"
  by (simp_all add: world_no_video_def world_up_def)

lemma platform_error_simps:
  "code (platform_error c) = Some c" "message (platform_error c) = js ''platform failure''"
  by (simp_all add: platform_error_def)

lemma fresh_token_valid_any:
  "now w = 1000 \<Longrightarrow>
   ensureValidToken w (state_of fresh_credentials) =
     (Inr True, (state_of fresh_credentials)\<lparr>calls := [EnsureValidToken]\<rparr>)"
  by (simp add: ensure_cases token_missing_def expired_def example_simps)

lemma getVideo_platform_failure:
  assumes "ensureValidToken w s = (Inr True, s1)"
    and "videos_list w (js ''snippet,statistics'') vid = Inl e"
    and "log_create w ''FETCH_VIDEO_ERROR''
           [(''videoId'', JStr vid), (''error'', JStr (message e))] = None"
  shows "getVideo w vid s =
    (Inr (res_json 500 [(''error'', JStr (js ''Failed to fetch video'')),
                        (''message'', JStr (message e))]),
     s1\<lparr>calls := calls s1 @ [VideosList (js ''snippet,statistics'') vid],
        logs := logs s1 @ [\<lparr>action = ''FETCH_VIDEO_ERROR'',
                             details = [(''videoId'', JStr vid), (''error'', JStr (message e))],
                             createdAt = stamp w\<rparr>]\<rparr>)"
  using assms by (simp add: getVideo_def io_defs)

lemma putVideo_list_failure:
  assumes "truthy title' \<or> truthy description'"
    and "ensureValidToken w s = (Inr True, s1)"
    and "videos_list w (js ''snippet'') vid = Inl e"
    and "log_create w ''UPDATE_VIDEO_ERROR''
           [(''videoId'', JStr vid), (''error'', JStr (message e))] = None"
  shows "fst (putVideo w vid title' description' s) =
    Inr (res_json 500 [(''error'', JStr (js ''Failed to update video'')),
                       (''message'', JStr (message e))])"
  using assms by (auto simp add: putVideo_def io_defs)

lemma putVideo_update_failure:
  assumes "truthy title' \<or> truthy description'"
    and "ensureValidToken w s = (Inr True, s1)"
    and "videos_list w (js ''snippet'') vid = Inr (Some (item # rest))"
    and "videos_update w vid (updatedSnippet title' description' (snippet item)) = Inl e"
    and "log_create w ''UPDATE_VIDEO_ERROR''
           [(''videoId'', JStr vid), (''error'', JStr (message e))] = None"
  shows "fst (putVideo w vid title' description' s) =
    Inr (res_json 500 [(''error'', JStr (js ''Failed to update video'')),
                       (''message'', JStr (message e))])"
  using assms by (auto simp add: putVideo_def io_defs Let_def)

lemma deleteComment_platform_failure:
  assumes "ensureValidToken w s = (Inr True, s1)"
    and "comments_delete w cid = Some e"
    and "log_create w ''DELETE_COMMENT_ERROR''
           [(''commentId'', JStr cid), (''error'', JStr (message e))] = None"
  shows "deleteComment w cid s =
    (Inr (res_json (fst (delete_classify e))
            [(''error'', JStr (js ''Delete failed'')),
             (''message'', JStr (snd (delete_classify e))),
             (''details'', JStr (message e))]),
     s1\<lparr>calls := calls s1 @ [CommentsDelete cid],
        logs := logs s1 @ [\<lparr>action = ''DELETE_COMMENT_ERROR'',
                             details = [(''commentId'', JStr cid), (''error'', JStr (message e))],
                             createdAt = stamp w\<rparr>]\<rparr>)"
  using assms by (simp add: deleteComment_def io_defs split_beta)

lemma delete_classify_status:
  "fst (delete_classify e) =
     (if code e = Some 400 then 400 else if code e = Some 401 then 401
      else if code e = Some 403 then 403 else if code e = Some 404 then 404 else 500)"
  by (simp add: delete_classify_def)

text \<open>
  The \<open>catch\<close> blocks of the two comment handlers classify the error and then fail on the
  unbound \<open>text\<close>: a platform failure there ends in a rejected promise, with no log entry
  and no response from the handler.
\<close>

lemma comment_handlers_reject_on_failure:
  assumes "trim t \<noteq> []" "length t \<le> 10000" "ensureValidToken w s = (Inr True, s1)"
  shows "videos_list w (js ''snippet,status'') vid = Inl e \<Longrightarrow>
           fst (postComment w vid (JStr t) s) = Inl (ReferenceError ''text is not defined'')"
    and "videos_list w (js ''snippet,status'') vid = Inr (Some (item # rest)) \<Longrightarrow>
         commentThreads_insert w vid (trim t) = Inl e \<Longrightarrow>
           fst (postComment w vid (JStr t) s) = Inl (ReferenceError ''text is not defined'')"
    and "comments_insert w cid (trim t) = Inl e \<Longrightarrow>
           fst (postReply w cid (JStr t) s) = Inl (ReferenceError ''text is not defined'')"
  using assms trim_nonempty [OF assms(1)]
  by (simp_all add: postComment_def postReply_def io_defs text_in_catch_def split_beta)

text \<open>
  Claim C5 is stated for every endpoint. The two video handlers do not classify: whatever
  the platform reports, they answer HTTP 500 with a body of \<open>error\<close> and \<open>message\<close> only.
  Here the platform reports 401 on \<open>GET /api/video/:id\<close>.
\<close>

theorem platform_failure_classification_counterexample:
  "code (platform_error 401) = Some 401 \<and>
   fst (getVideo (world_failing (platform_error 401)) (js ''v1'') (state_of fresh_credentials)) =
     Inr \<lparr>status = 500,
          body = Obj [(''error'', JStr (js ''Failed to fetch video'')),
                      (''message'', JStr (js ''platform failure''))]\<rparr>"
  using getVideo_platform_failure [where w = "world_failing (platform_error 401)"
      and s = "state_of fresh_credentials" and vid = "js ''v1''" and e = "platform_error 401",
      OF fresh_token_valid_any]
  by (simp add: world_failing_simps platform_error_simps res_json_def)

text \<open>
  Claim C5, amended: with a valid token, a failure of the platform call in
  \<open>DELETE /api/comment/:id\<close> is classified by its status code (400, 401, 403 and 404 are
  passed on, anything else is 500) and answered with a body of \<open>error\<close>, \<open>message\<close> and
  \<open>details\<close>; a failure of a platform call in \<open>GET\<close> or \<open>PUT /api/video/:id\<close> is answered
  with HTTP 500 and a body of \<open>error\<close> and \<open>message\<close>, whatever its code. Each holds when the
  Activity Log accepts the error entry.
\<close>

theorem platform_failure_classification:
  assumes "fst (ensureValidToken w s) = Inr True"
  shows
   "(comments_delete w cid = Some e \<and>
     log_create w ''DELETE_COMMENT_ERROR''
       [(''commentId'', JStr cid), (''error'', JStr (message e))] = None \<longrightarrow>
       (\<exists>m. fst (deleteComment w cid s) =
          Inr \<lparr>status = (if code e = Some 400 then 400 else if code e = Some 401 then 401
                          else if code e = Some 403 then 403
                          else if code e = Some 404 then 404 else 500),
               body = Obj [(''error'', JStr (js ''Delete failed'')),
                           (''message'', JStr m),
                           (''details'', JStr (message e))]\<rparr>)) \<and>
    (videos_list w (js ''snippet,statistics'') vid = Inl e \<and>
     log_create w ''FETCH_VIDEO_ERROR''
       [(''videoId'', JStr vid), (''error'', JStr (message e))] = None \<longrightarrow>
       fst (getVideo w vid s) =
         Inr \<lparr>status = 500,
              body = Obj [(''error'', JStr (js ''Failed to fetch video'')),
                          (''message'', JStr (message e))]\<rparr>) \<and>
    ((truthy title' \<or> truthy description') \<and>
     (videos_list w (js ''snippet'') vid = Inl e \<or>
      (\<exists>item rest. videos_list w (js ''snippet'') vid = Inr (Some (item # rest)) \<and>
         videos_update w vid (updatedSnippet title' description' (snippet item)) = Inl e)) \<and>
     log_create w ''UPDATE_VIDEO_ERROR''
       [(''videoId'', JStr vid), (''error'', JStr (message e))] = None \<longrightarrow>
       fst (putVideo w vid title' description' s) =
         Inr \<lparr>status = 500,
              body = Obj [(''error'', JStr (js ''Failed to update video'')),
                          (''message'', JStr (message e))]\<rparr>)"
proof -
  from assms have run: "ensureValidToken w s = (Inr True, snd (ensureValidToken w s))"
    by (metis prod.collapse)
  have del: "comments_delete w cid = Some e \<and>
     log_create w ''DELETE_COMMENT_ERROR''
       [(''commentId'', JStr cid), (''error'', JStr (message e))] = None \<longrightarrow>
       (\<exists>m. fst (deleteComment w cid s) =
          Inr \<lparr>status = (if code e = Some 400 then 400 else if code e = Some 401 then 401
                          else if code e = Some 403 then 403
                          else if code e = Some 404 then 404 else 500),
               body = Obj [(''error'', JStr (js ''Delete failed'')),
                           (''message'', JStr m),
                           (''details'', JStr (message e))]\<rparr>)"
    using deleteComment_platform_failure [OF run, of cid e]
    by (auto simp add: res_json_def delete_classify_status simp del: One_nat_def)
  have get: "videos_list w (js ''snippet,statistics'') vid = Inl e \<and>
     log_create w ''FETCH_VIDEO_ERROR''
       [(''videoId'', JStr vid), (''error'', JStr (message e))] = None \<longrightarrow>
       fst (getVideo w vid s) =
         Inr \<lparr>status = 500,
              body = Obj [(''error'', JStr (js ''Failed to fetch video'')),
                          (''message'', JStr (message e))]\<rparr>"
    using getVideo_platform_failure [OF run, of vid e]
    by (auto simp add: res_json_def)
  have put: "(truthy title' \<or> truthy description') \<and>
     (videos_list w (js ''snippet'') vid = Inl e \<or>
      (\<exists>item rest. videos_list w (js ''snippet'') vid = Inr (Some (item # rest)) \<and>
         videos_update w vid (updatedSnippet title' description' (snippet item)) = Inl e)) \<and>
     log_create w ''UPDATE_VIDEO_ERROR''
       [(''videoId'', JStr vid), (''error'', JStr (message e))] = None \<longrightarrow>
       fst (putVideo w vid title' description' s) =
         Inr \<lparr>status = 500,
              body = Obj [(''error'', JStr (js ''Failed to update video'')),
                          (''message'', JStr (message e))]\<rparr>"
    using putVideo_list_failure [OF _ run, of title' description' vid e]
      putVideo_update_failure [OF _ run, of title' description' vid _ _ e]
    by (auto simp add: res_json_def)
  show ?thesis
    by (intro conjI) (rule del get put)+
qed

theorem platform_failure_classification_witness:
  "fst (deleteComment (world_failing (platform_error 404)) (js ''c1'') (state_of fresh_credentials)) =
     Inr \<lparr>status = 404,
          body = Obj [(''error'', JStr (js ''Delete failed'')),
                      (''message'', JStr (js ''Comment not found.'')),
                      (''details'', JStr (js ''platform failure''))]\<rparr> \<and>
   fst (getVideo (world_failing (platform_error 404)) (js ''v1'') (state_of fresh_credentials)) =
     Inr \<lparr>status = 500,
          body = Obj [(''error'', JStr (js ''Failed to fetch video'')),
                      (''message'', JStr (js ''platform failure''))]\<rparr> \<and>
   fst (putVideo (world_failing (platform_error 404)) (js ''v1'') (JStr (js ''New'')) JUndefined
          (state_of fresh_credentials)) =
     Inr \<lparr>status = 500,
          body = Obj [(''error'', JStr (js ''Failed to update video'')),
                      (''message'', JStr (js ''platform failure''))]\<rparr>"
proof -
  have valid: "fst (ensureValidToken (world_failing (platform_error 404))
      (state_of fresh_credentials)) = Inr True"
    by (simp add: fresh_token_valid_any world_failing_simps)
  note main = platform_failure_classification [OF valid, where cid = "js ''c1''"
      and vid = "js ''v1''" and e = "platform_error 404" and title' = "JStr (js ''New'')"
      and description' = JUndefined]
  have del_given: "comments_delete (world_failing (platform_error 404)) (js ''c1'') =
      Some (platform_error 404) \<and>
    log_create (world_failing (platform_error 404)) ''DELETE_COMMENT_ERROR''
      [(''commentId'', JStr (js ''c1'')), (''error'', JStr (message (platform_error 404)))] = None"
    by (simp add: world_failing_simps)
  have get_given: "videos_list (world_failing (platform_error 404)) (js ''snippet,statistics'')
      (js ''v1'') = Inl (platform_error 404) \<and>
    log_create (world_failing (platform_error 404)) ''FETCH_VIDEO_ERROR''
      [(''videoId'', JStr (js ''v1'')), (''error'', JStr (message (platform_error 404)))] = None"
    by (simp add: world_failing_simps)
  have put_given: "(truthy (JStr (js ''New'')) \<or> truthy JUndefined) \<and>
    (videos_list (world_failing (platform_error 404)) (js ''snippet'') (js ''v1'') =
       Inl (platform_error 404) \<or>
     (\<exists>item rest. videos_list (world_failing (platform_error 404)) (js ''snippet'') (js ''v1'') =
         Inr (Some (item # rest)) \<and>
       videos_update (world_failing (platform_error 404)) (js ''v1'')
         (updatedSnippet (JStr (js ''New'')) JUndefined (snippet item)) = Inl (platform_error 404))) \<and>
    log_create (world_failing (platform_error 404)) ''UPDATE_VIDEO_ERROR''
      [(''videoId'', JStr (js ''v1'')), (''error'', JStr (message (platform_error 404)))] = None"
    by (simp add: world_failing_simps example_simps)
  note del_result = main [THEN conjunct1, rule_format, OF del_given]
  note get_result = main [THEN conjunct2, THEN conjunct1, rule_format, OF get_given]
  note put_result = main [THEN conjunct2, THEN conjunct2, rule_format, OF put_given]
  have del_message: "fst (deleteComment (world_failing (platform_error 404)) (js ''c1'')
      (state_of fresh_credentials)) =
    Inr (res_json 404 [(''error'', JStr (js ''Delete failed'')),
                       (''message'', JStr (js ''Comment not found.'')),
                       (''details'', JStr (js ''platform failure''))])"
    using del_result
    by (simp add: deleteComment_platform_failure [OF fresh_token_valid_any]
          world_failing_simps platform_error_simps delete_classify_def)
  show ?thesis
    using del_message get_result put_result
    by (simp add: platform_error_simps res_json_def)
qed

section \<open>Existence checks\<close>

lemma getVideo_missing:
  assumes "ensureValidToken w s = (Inr True, s1)"
    and "videos_list w (js ''snippet,statistics'') vid \<in> {Inr None, Inr (Some [])}"
  shows "getVideo w vid s =
    (Inr video_not_found, s1\<lparr>calls := calls s1 @ [VideosList (js ''snippet,statistics'') vid]\<rparr>)"
  using assms by (auto simp add: getVideo_def io_defs)

lemma putVideo_missing:
  assumes "truthy title' \<or> truthy description'"
    and "ensureValidToken w s = (Inr True, s1)"
    and "videos_list w (js ''snippet'') vid \<in> {Inr None, Inr (Some [])}"
  shows "putVideo w vid title' description' s =
    (Inr video_not_found, s1\<lparr>calls := calls s1 @ [VideosList (js ''snippet'') vid]\<rparr>)"
  using assms by (auto simp add: putVideo_def io_defs)

lemma postComment_missing:
  assumes "trim t \<noteq> []" "length t \<le> 10000"
    and "ensureValidToken w s = (Inr True, s1)"
    and "videos_list w (js ''snippet,status'') vid \<in> {Inr None, Inr (Some [])}"
  shows "postComment w vid (JStr t) s =
    (Inr video_not_found, s1\<lparr>calls := calls s1 @ [VideosList (js ''snippet,status'') vid]\<rparr>)"
  using assms trim_nonempty [OF assms(1)] by (auto simp add: postComment_def io_defs)

lemma getVideo_reads_first:
  assumes "ensureValidToken w s = (Inr True, s1)"
  shows "\<exists>cs. calls (snd (getVideo w vid s)) =
           calls s1 @ VideosList (js ''snippet,statistics'') vid # cs"
  using assms
  by (auto simp add: getVideo_def io_defs
        split: sum.splits option.splits list.splits prod.splits)

lemma putVideo_reads_first:
  assumes "truthy title' \<or> truthy description'" "ensureValidToken w s = (Inr True, s1)"
  shows "\<exists>cs. calls (snd (putVideo w vid title' description' s)) =
           calls s1 @ VideosList (js ''snippet'') vid # cs"
  using assms
  by (auto simp add: putVideo_def io_defs Let_def
        split: sum.splits option.splits list.splits prod.splits)

lemma postComment_reads_first:
  assumes "trim t \<noteq> []" "length t \<le> 10000" "ensureValidToken w s = (Inr True, s1)"
  shows "\<exists>cs. calls (snd (postComment w vid (JStr t) s)) =
           calls s1 @ VideosList (js ''snippet,status'') vid # cs"
  using assms trim_nonempty [OF assms(1)]
  by (auto simp add: postComment_def io_defs text_in_catch_def
        split: sum.splits option.splits list.splits prod.splits)

lemma deleteComment_calls:
  assumes "ensureValidToken w s = (Inr True, s1)"
  shows "calls (snd (deleteComment w cid s)) = calls s1 @ [CommentsDelete cid]"
  using assms
  by (auto simp add: deleteComment_def io_defs
        split: sum.splits option.splits list.splits prod.splits)

lemma postReply_calls:
  assumes "trim t \<noteq> []" "length t \<le> 10000" "ensureValidToken w s = (Inr True, s1)"
  shows "calls (snd (postReply w cid (JStr t) s)) = calls s1 @ [CommentsInsert cid (trim t)]"
  using assms trim_nonempty [OF assms(1)]
  by (auto simp add: postReply_def io_defs text_in_catch_def
        split: sum.splits option.splits list.splits prod.splits)

text \<open>
  Claim C6 asks every comment mutation to confirm its target with a read call first. The
  reply and delete handlers make no read call: with a valid token, the mutation is the only
  call to the platform.
\<close>

theorem existence_checks_counterexample:
  "calls (snd (postReply world_up (js ''c9'') (JStr (js ''hello'')) (state_of fresh_credentials))) =
     [EnsureValidToken, CommentsInsert (js ''c9'') (js ''hello'')] \<and>
   calls (snd (deleteComment world_up (js ''c9'') (state_of fresh_credentials))) =
     [EnsureValidToken, CommentsDelete (js ''c9'')] \<and>
   \<not> is_read_call EnsureValidToken \<and>
   \<not> is_read_call (CommentsInsert (js ''c9'') (js ''hello'')) \<and>
   \<not> is_read_call (CommentsDelete (js ''c9''))"
  using postReply_calls [where w = world_up and s = "state_of fresh_credentials"
      and t = "js ''hello''" and cid = "js ''c9''", OF _ _ fresh_token_valid]
    deleteComment_calls [where w = world_up and s = "state_of fresh_credentials"
      and cid = "js ''c9''", OF fresh_token_valid]
  by (simp add: trim_hello) (simp add: js_def)

text \<open>
  Claim C6, amended: once the token check has passed, video lookup, video update and add
  comment first issue a \<open>videos.list\<close> read call, before any mutation, and respond HTTP 404
  when it returns no items; reply and delete issue no read call, the mutation being their
  only platform call; delete responds HTTP 404 when the platform's delete fails with code
  404 and the Activity Log accepts the error entry.
\<close>

theorem existence_checks:
  assumes "fst (ensureValidToken w s) = Inr True"
  shows
   "(\<exists>cs. calls (snd (getVideo w vid s)) =
       calls (snd (ensureValidToken w s)) @ VideosList (js ''snippet,statistics'') vid # cs) \<and>
    (videos_list w (js ''snippet,statistics'') vid \<in> {Inr None, Inr (Some [])} \<longrightarrow>
       fst (getVideo w vid s) = Inr video_not_found) \<and>
    (truthy title' \<or> truthy description' \<longrightarrow>
       (\<exists>cs. calls (snd (putVideo w vid title' description' s)) =
          calls (snd (ensureValidToken w s)) @ VideosList (js ''snippet'') vid # cs) \<and>
       (videos_list w (js ''snippet'') vid \<in> {Inr None, Inr (Some [])} \<longrightarrow>
          putVideo w vid title' description' s =
            (Inr video_not_found,
             (snd (ensureValidToken w s))\<lparr>calls :=
                calls (snd (ensureValidToken w s)) @ [VideosList (js ''snippet'') vid]\<rparr>))) \<and>
    (trim t \<noteq> [] \<and> length t \<le> 10000 \<longrightarrow>
       (\<exists>cs. calls (snd (postComment w vid (JStr t) s)) =
          calls (snd (ensureValidToken w s)) @ VideosList (js ''snippet,status'') vid # cs) \<and>
       (videos_list w (js ''snippet,status'') vid \<in> {Inr None, Inr (Some [])} \<longrightarrow>
          postComment w vid (JStr t) s =
            (Inr video_not_found,
             (snd (ensureValidToken w s))\<lparr>calls :=
                calls (snd (ensureValidToken w s)) @ [VideosList (js ''snippet,status'') vid]\<rparr>)) \<and>
       calls (snd (postReply w cid (JStr t) s)) =
         calls (snd (ensureValidToken w s)) @ [CommentsInsert cid (trim t)]) \<and>
    calls (snd (deleteComment w cid s)) =
      calls (snd (ensureValidToken w s)) @ [CommentsDelete cid] \<and>
    (comments_delete w cid = Some e \<and> code e = Some 404 \<and>
     log_create w ''DELETE_COMMENT_ERROR''
       [(''commentId'', JStr cid), (''error'', JStr (message e))] = None \<longrightarrow>
       (\<exists>b. fst (deleteComment w cid s) = Inr \<lparr>status = 404, body = b\<rparr>)) \<and>
    status video_not_found = 404"
proof -
  from assms have run: "ensureValidToken w s = (Inr True, snd (ensureValidToken w s))"
    by (metis prod.collapse)
  have get: "(\<exists>cs. calls (snd (getVideo w vid s)) =
       calls (snd (ensureValidToken w s)) @ VideosList (js ''snippet,statistics'') vid # cs) \<and>
    (videos_list w (js ''snippet,statistics'') vid \<in> {Inr None, Inr (Some [])} \<longrightarrow>
       fst (getVideo w vid s) = Inr video_not_found)"
    using getVideo_reads_first [OF run, of vid] getVideo_missing [OF run, of vid]
    by auto
  have put: "truthy title' \<or> truthy description' \<longrightarrow>
       (\<exists>cs. calls (snd (putVideo w vid title' description' s)) =
          calls (snd (ensureValidToken w s)) @ VideosList (js ''snippet'') vid # cs) \<and>
       (videos_list w (js ''snippet'') vid \<in> {Inr None, Inr (Some [])} \<longrightarrow>
          putVideo w vid title' description' s =
            (Inr video_not_found,
             (snd (ensureValidToken w s))\<lparr>calls :=
                calls (snd (ensureValidToken w s)) @ [VideosList (js ''snippet'') vid]\<rparr>))"
    using putVideo_reads_first [OF _ run, of title' description' vid]
      putVideo_missing [OF _ run, of title' description' vid]
    by blast
  have comment: "trim t \<noteq> [] \<and> length t \<le> 10000 \<longrightarrow>
       (\<exists>cs. calls (snd (postComment w vid (JStr t) s)) =
          calls (snd (ensureValidToken w s)) @ VideosList (js ''snippet,status'') vid # cs) \<and>
       (videos_list w (js ''snippet,status'') vid \<in> {Inr None, Inr (Some [])} \<longrightarrow>
          postComment w vid (JStr t) s =
            (Inr video_not_found,
             (snd (ensureValidToken w s))\<lparr>calls :=
                calls (snd (ensureValidToken w s)) @ [VideosList (js ''snippet,status'') vid]\<rparr>)) \<and>
       calls (snd (postReply w cid (JStr t) s)) =
         calls (snd (ensureValidToken w s)) @ [CommentsInsert cid (trim t)]"
    using postComment_reads_first [OF _ _ run, of t vid]
      postComment_missing [OF _ _ run, of t vid] postReply_calls [OF _ _ run, of t cid]
    by blast
  have del_calls: "calls (snd (deleteComment w cid s)) =
      calls (snd (ensureValidToken w s)) @ [CommentsDelete cid]"
    by (rule deleteComment_calls [OF run])
  have del: "comments_delete w cid = Some e \<and> code e = Some 404 \<and>
     log_create w ''DELETE_COMMENT_ERROR''
       [(''commentId'', JStr cid), (''error'', JStr (message e))] = None \<longrightarrow>
       (\<exists>b. fst (deleteComment w cid s) = Inr \<lparr>status = 404, body = b\<rparr>)"
    using deleteComment_platform_failure [OF run, of cid e]
    by (auto simp add: res_json_def delete_classify_status)
  have code: "status video_not_found = 404"
    by (simp add: video_not_found_def res_json_def)
  show ?thesis
    by (intro conjI) (rule conjunct1 [OF get] conjunct2 [OF get] put comment del_calls del code)+
qed

theorem existence_checks_witness:
  "fst (getVideo world_no_video (js ''v1'') (state_of fresh_credentials)) = Inr video_not_found \<and>
   putVideo world_no_video (js ''v1'') (JStr (js ''New'')) JUndefined (state_of fresh_credentials) =
     (Inr video_not_found,
      (state_of fresh_credentials)\<lparr>calls := [EnsureValidToken, VideosList (js ''snippet'') (js ''v1'')]\<rparr>) \<and>
   postComment world_no_video (js ''v1'') (JStr (js ''hello'')) (state_of fresh_credentials) =
     (Inr video_not_found,
      (state_of fresh_credentials)\<lparr>calls :=
         [EnsureValidToken, VideosList (js ''snippet,status'') (js ''v1'')]\<rparr>) \<and>
   calls (snd (postReply world_no_video (js ''c9'') (JStr (js ''hello'')) (state_of fresh_credentials))) =
     [EnsureValidToken, CommentsInsert (js ''c9'') (js ''hello'')] \<and>
   calls (snd (deleteComment (world_failing (platform_error 404)) (js ''c9'')
       (state_of fresh_credentials))) = [EnsureValidToken, CommentsDelete (js ''c9'')] \<and>
   (\<exists>b. fst (deleteComment (world_failing (platform_error 404)) (js ''c9'')
       (state_of fresh_credentials)) = Inr \<lparr>status = 404, body = b\<rparr>)"
proof -
  have run1: "ensureValidToken world_no_video (state_of fresh_credentials) =
      (Inr True, (state_of fresh_credentials)\<lparr>calls := [EnsureValidToken]\<rparr>)"
    by (simp add: fresh_token_valid_any world_no_video_simps)
  have run2: "ensureValidToken (world_failing (platform_error 404)) (state_of fresh_credentials) =
      (Inr True, (state_of fresh_credentials)\<lparr>calls := [EnsureValidToken]\<rparr>)"
    by (simp add: fresh_token_valid_any world_failing_simps)
  have valid1: "fst (ensureValidToken world_no_video (state_of fresh_credentials)) = Inr True"
    by (simp add: run1)
  have valid2: "fst (ensureValidToken (world_failing (platform_error 404))
      (state_of fresh_credentials)) = Inr True"
    by (simp add: run2)
  note video = existence_checks [OF valid1, where vid = "js ''v1''" and cid = "js ''c9''"
      and title' = "JStr (js ''New'')" and description' = JUndefined and t = "js ''hello''"]
  note comment = existence_checks [OF valid2, where cid = "js ''c9''"
      and e = "platform_error 404"]
  have get_given: "videos_list world_no_video (js ''snippet,statistics'') (js ''v1'') \<in>
      {Inr None, Inr (Some [])}"
    by (simp add: world_no_video_simps)
  have put_given: "truthy (JStr (js ''New'')) \<or> truthy JUndefined"
    by (simp add: example_simps)
  have put_missing: "videos_list world_no_video (js ''snippet'') (js ''v1'') \<in>
      {Inr None, Inr (Some [])}"
    by (simp add: world_no_video_simps)
  have text_given: "trim (js ''hello'') \<noteq> [] \<and> length (js ''hello'') \<le> 10000"
    by (simp add: trim_hello) (simp add: js_def)
  have comment_missing: "videos_list world_no_video (js ''snippet,status'') (js ''v1'') \<in>
      {Inr None, Inr (Some [])}"
    by (simp add: world_no_video_simps)
  have del_given: "comments_delete (world_failing (platform_error 404)) (js ''c9'') =
      Some (platform_error 404) \<and> code (platform_error 404) = Some 404 \<and>
    log_create (world_failing (platform_error 404)) ''DELETE_COMMENT_ERROR''
      [(''commentId'', JStr (js ''c9'')), (''error'', JStr (message (platform_error 404)))] = None"
    by (simp add: world_failing_simps platform_error_simps)
  note get_result = video [THEN conjunct2, THEN conjunct1, rule_format, OF get_given]
  note put_result =
    video [THEN conjunct2, THEN conjunct2, THEN conjunct1, rule_format, OF put_given,
      THEN conjunct2, rule_format, OF put_missing]
  note text_result =
    video [THEN conjunct2, THEN conjunct2, THEN conjunct2, THEN conjunct1, rule_format,
      OF text_given]
  note comment_result = text_result [THEN conjunct2, THEN conjunct1, rule_format, OF comment_missing]
  note reply_result = text_result [THEN conjunct2, THEN conjunct2]
  note del_calls =
    comment [THEN conjunct2, THEN conjunct2, THEN conjunct2, THEN conjunct2, THEN conjunct1]
  note del_result =
    comment [THEN conjunct2, THEN conjunct2, THEN conjunct2, THEN conjunct2, THEN conjunct2,
      THEN conjunct1, rule_format, OF del_given]
  show ?thesis
    using get_result put_result comment_result reply_result del_calls del_result
    by (simp add: run1 run2 trim_hello)
qed

section \<open>Updating video metadata\<close>

lemma putVideo_nothing_supplied:
  "\<not> truthy title' \<Longrightarrow> \<not> truthy description' \<Longrightarrow>
   putVideo w vid title' description' s =
     (Inr (res_json 400 [(''error'', JStr (js ''Invalid input'')),
                         (''message'', JStr (js ''Title or description is required''))]), s)"
  by (simp add: putVideo_def io_defs)

lemma putVideo_found_calls:
  assumes "truthy title' \<or> truthy description'"
    and "ensureValidToken w s = (Inr True, s1)"
    and "videos_list w (js ''snippet'') vid = Inr (Some (item # rest))"
  shows "calls (snd (putVideo w vid title' description' s)) =
    calls s1 @ [VideosList (js ''snippet'') vid,
                VideosUpdate vid (updatedSnippet title' description' (snippet item))]"
  using assms
  by (auto simp add: putVideo_def io_defs Let_def
        split: sum.splits option.splits list.splits prod.splits)

lemma putVideo_success:
  assumes "truthy title' \<or> truthy description'"
    and "ensureValidToken w s = (Inr True, s1)"
    and "videos_list w (js ''snippet'') vid = Inr (Some (item # rest))"
    and "videos_update w vid (updatedSnippet title' description' (snippet item)) = Inr d"
    and "log_create w ''UPDATE_VIDEO''
           [(''videoId'', JStr vid), (''title'', title'), (''description'', description')] = None"
  shows "fst (putVideo w vid title' description' s) = Inr \<lparr>status = 200, body = Data d\<rparr>"
  using assms
  by (auto simp add: putVideo_def io_defs Let_def)

lemma updatedSnippet_fields:
  "title (updatedSnippet title' description' cur) = (if truthy title' then title' else title cur)"
  "description (updatedSnippet title' description' cur) =
     (if truthy description' then description' else description cur)"
  "other_fields (updatedSnippet title' description' cur) = other_fields cur"
  by (simp_all add: updatedSnippet_def js_or_def)

lemma updatedSnippet_empty_string:
  "updatedSnippet (JStr []) description' cur = updatedSnippet JUndefined description' cur"
  "updatedSnippet title' (JStr []) cur = updatedSnippet title' JUndefined cur"
  by (simp_all add: updatedSnippet_def js_or_def)

text \<open>
  Claim C9: \<open>PUT /api/video/:id\<close> answers HTTP 400 when neither a title nor a description
  is given; otherwise (token valid, video found) it sends the platform the existing snippet
  with the given title and description put in place, every field that was not given keeping
  its existing value, and answers HTTP 200 with the platform's result; an empty string is
  merged exactly as an absent field is.
\<close>

theorem putVideo_merges_supplied_fields:
  "(\<not> truthy title' \<and> \<not> truthy description' \<longrightarrow>
      putVideo w vid title' description' s =
        (Inr \<lparr>status = 400,
              body = Obj [(''error'', JStr (js ''Invalid input'')),
                          (''message'', JStr (js ''Title or description is required''))]\<rparr>, s)) \<and>
   \<not> truthy JUndefined \<and>
   ((truthy title' \<or> truthy description') \<and> fst (ensureValidToken w s) = Inr True \<and>
    videos_list w (js ''snippet'') vid = Inr (Some (item # rest)) \<longrightarrow>
      calls (snd (putVideo w vid title' description' s)) =
        calls (snd (ensureValidToken w s)) @
          [VideosList (js ''snippet'') vid,
           VideosUpdate vid (updatedSnippet title' description' (snippet item))] \<and>
      (videos_update w vid (updatedSnippet title' description' (snippet item)) = Inr d \<and>
       log_create w ''UPDATE_VIDEO''
         [(''videoId'', JStr vid), (''title'', title'), (''description'', description')] = None \<longrightarrow>
         fst (putVideo w vid title' description' s) = Inr \<lparr>status = 200, body = Data d\<rparr>)) \<and>
   title (updatedSnippet title' description' cur) =
     (if truthy title' then title' else title cur) \<and>
   description (updatedSnippet title' description' cur) =
     (if truthy description' then description' else description cur) \<and>
   other_fields (updatedSnippet title' description' cur) = other_fields cur \<and>
   updatedSnippet (JStr []) description' cur = updatedSnippet JUndefined description' cur \<and>
   updatedSnippet title' (JStr []) cur = updatedSnippet title' JUndefined cur"
proof -
  have refused: "\<not> truthy title' \<and> \<not> truthy description' \<longrightarrow>
      putVideo w vid title' description' s =
        (Inr \<lparr>status = 400,
              body = Obj [(''error'', JStr (js ''Invalid input'')),
                          (''message'', JStr (js ''Title or description is required''))]\<rparr>, s)"
    by (simp add: putVideo_nothing_supplied res_json_def)
  have absent: "\<not> truthy JUndefined"
    by simp
  have merged: "(truthy title' \<or> truthy description') \<and> fst (ensureValidToken w s) = Inr True \<and>
    videos_list w (js ''snippet'') vid = Inr (Some (item # rest)) \<longrightarrow>
      calls (snd (putVideo w vid title' description' s)) =
        calls (snd (ensureValidToken w s)) @
          [VideosList (js ''snippet'') vid,
           VideosUpdate vid (updatedSnippet title' description' (snippet item))] \<and>
      (videos_update w vid (updatedSnippet title' description' (snippet item)) = Inr d \<and>
       log_create w ''UPDATE_VIDEO''
         [(''videoId'', JStr vid), (''title'', title'), (''description'', description')] = None \<longrightarrow>
         fst (putVideo w vid title' description' s) = Inr \<lparr>status = 200, body = Data d\<rparr>)"
  proof (intro impI)
    assume given: "(truthy title' \<or> truthy description') \<and>
      fst (ensureValidToken w s) = Inr True \<and>
      videos_list w (js ''snippet'') vid = Inr (Some (item # rest))"
    then have run: "ensureValidToken w s = (Inr True, snd (ensureValidToken w s))"
      by (metis prod.collapse)
    from given have some: "truthy title' \<or> truthy description'"
      and found: "videos_list w (js ''snippet'') vid = Inr (Some (item # rest))"
      by simp_all
    show "calls (snd (putVideo w vid title' description' s)) =
        calls (snd (ensureValidToken w s)) @
          [VideosList (js ''snippet'') vid,
           VideosUpdate vid (updatedSnippet title' description' (snippet item))] \<and>
      (videos_update w vid (updatedSnippet title' description' (snippet item)) = Inr d \<and>
       log_create w ''UPDATE_VIDEO''
         [(''videoId'', JStr vid), (''title'', title'), (''description'', description')] = None \<longrightarrow>
         fst (putVideo w vid title' description' s) = Inr \<lparr>status = 200, body = Data d\<rparr>)"
      using putVideo_found_calls [OF some run found] putVideo_success [OF some run found, of d]
      by simp
  qed
  show ?thesis
    by (intro conjI)
       (rule refused absent merged updatedSnippet_fields updatedSnippet_empty_string)+
qed

lemma sample_video_simps:
  "snippet sample_video =
     \<lparr>title = JStr (js ''Old title''), description = JStr (js ''Old text''),
      other_fields = [(''categoryId'', JStr (js ''22''))]\<rparr>"
  by (simp add: sample_video_def)

theorem putVideo_merges_supplied_fields_witness:
  "putVideo world_up (js ''v1'') JUndefined JUndefined (state_of fresh_credentials) =
     (Inr \<lparr>status = 400,
           body = Obj [(''error'', JStr (js ''Invalid input'')),
                       (''message'', JStr (js ''Title or description is required''))]\<rparr>,
      state_of fresh_credentials) \<and>
   calls (snd (putVideo world_up (js ''v1'') (JStr (js ''New'')) JUndefined
       (state_of fresh_credentials))) =
     [EnsureValidToken, VideosList (js ''snippet'') (js ''v1''),
      VideosUpdate (js ''v1'')
        \<lparr>title = JStr (js ''New''), description = JStr (js ''Old text''),
         other_fields = [(''categoryId'', JStr (js ''22''))]\<rparr>] \<and>
   fst (putVideo world_up (js ''v1'') (JStr (js ''New'')) JUndefined (state_of fresh_credentials)) =
     Inr \<lparr>status = 200, body = Data (JObj [(''id'', JStr (js ''v1''))])\<rparr>"
proof -
  note refused = putVideo_merges_supplied_fields [where w = world_up and vid = "js ''v1''"
      and s = "state_of fresh_credentials" and title' = JUndefined and description' = JUndefined]
  note merged = putVideo_merges_supplied_fields [where w = world_up and vid = "js ''v1''"
      and s = "state_of fresh_credentials" and title' = "JStr (js ''New'')"
      and description' = JUndefined and item = sample_video and rest = "[]"
      and d = "JObj [(''id'', JStr (js ''v1''))]"]
  have nothing: "\<not> truthy JUndefined \<and> \<not> truthy JUndefined"
    by simp
  have given: "(truthy (JStr (js ''New'')) \<or> truthy JUndefined) \<and>
    fst (ensureValidToken world_up (state_of fresh_credentials)) = Inr True \<and>
    videos_list world_up (js ''snippet'') (js ''v1'') = Inr (Some (sample_video # []))"
    by (simp add: fresh_token_valid example_simps)
  note refused_result = refused [THEN conjunct1, rule_format, OF nothing]
  note merged_result = merged [THEN conjunct2, THEN conjunct2, THEN conjunct1, rule_format, OF given]
  have update_given:
    "videos_update world_up (js ''v1'')
       (updatedSnippet (JStr (js ''New'')) JUndefined (snippet sample_video)) =
       Inr (JObj [(''id'', JStr (js ''v1''))]) \<and>
     log_create world_up ''UPDATE_VIDEO''
       [(''videoId'', JStr (js ''v1'')), (''title'', JStr (js ''New'')),
        (''description'', JUndefined)] = None"
    by (simp add: example_simps)
  note calls_result = merged_result [THEN conjunct1]
  note ok_result = merged_result [THEN conjunct2, rule_format, OF update_given]
  have merged_snippet:
    "updatedSnippet (JStr (js ''New'')) JUndefined (snippet sample_video) =
       \<lparr>title = JStr (js ''New''), description = JStr (js ''Old text''),
        other_fields = [(''categoryId'', JStr (js ''22''))]\<rparr>"
    by (simp add: updatedSnippet_def js_or_def sample_video_simps example_simps)
  show ?thesis
    using refused_result calls_result ok_result
    by (simp add: fresh_token_valid merged_snippet)
qed

section \<open>Listing the Activity Log\<close>

lemma getLogs_ok:
  "store_find w = None \<Longrightarrow>
   getLogs w s =
     (Inr \<lparr>status = 200, body = LogsBody (sort_key (\<lambda>e. - createdAt e) (logs s))\<rparr>, s)"
  by (simp add: getLogs_def Log_find_sort_desc_def io_defs)

lemma sort_desc_sorted:
  "sorted_wrt (\<lambda>a b. createdAt a \<ge> createdAt b) (sort_key (\<lambda>e. - createdAt e) es)"
proof -
  have "sorted (map (\<lambda>e. - createdAt e) (sort_key (\<lambda>e. - createdAt e) es))"
    by (rule sorted_sort_key)
  then show ?thesis
    by (simp add: sorted_map)
qed

lemma filter_single:
  assumes "mset xs = {#e1, e2, e3#}" and "filter_mset P {#e1, e2, e3#} = {#k#}"
  shows "filter P xs = [k]"
proof -
  have "mset (filter P xs) = {#k#}"
    using assms by simp
  then show ?thesis
    by (simp only: mset_single_iff)
qed

lemma sort_desc_three:
  assumes elems: "mset es = {#e1, e2, e3#}"
    and lt12: "createdAt e1 < createdAt e2" and lt23: "createdAt e2 < createdAt e3"
  shows "sort_key (\<lambda>e. - createdAt e) es = [e3, e2, e1]"
proof (rule properties_for_sort_key)
  show "mset [e3, e2, e1] = mset es"
    using elems by (simp add: add_mset_commute)
  show "sorted (map (\<lambda>e. - createdAt e) [e3, e2, e1])"
    using lt12 lt23 by simp
  fix k
  assume "k \<in> set [e3, e2, e1]"
  then consider "k = e3" | "k = e2" | "k = e1"
    by auto
  then show "filter (\<lambda>x. - createdAt k = - createdAt x) [e3, e2, e1] =
      filter (\<lambda>x. - createdAt k = - createdAt x) es"
  proof cases
    case 1
    with lt12 lt23 have "filter (\<lambda>x. - createdAt k = - createdAt x) es = [k]"
      by (intro filter_single [OF elems]) auto
    with 1 lt12 lt23 show ?thesis by auto
  next
    case 2
    with lt12 lt23 have "filter (\<lambda>x. - createdAt k = - createdAt x) es = [k]"
      by (intro filter_single [OF elems]) auto
    with 2 lt12 lt23 show ?thesis by auto
  next
    case 3
    with lt12 lt23 have "filter (\<lambda>x. - createdAt k = - createdAt x) es = [k]"
      by (intro filter_single [OF elems]) auto
    with 3 lt12 lt23 show ?thesis by auto
  qed
qed

text \<open>
  Claim C8: when the store can be read, \<open>GET /api/logs\<close> answers HTTP 200 with all the log
  entries, ordered by creation time with the latest first; entries created at
  \<open>t1 < t2 < t3\<close> come back in the order \<open>t3, t2, t1\<close>, in whatever order they are stored.
\<close>

theorem getLogs_newest_first:
  "store_find w = None \<longrightarrow>
     (\<exists>found. getLogs w s = (Inr \<lparr>status = 200, body = LogsBody found\<rparr>, s) \<and>
        mset found = mset (logs s) \<and>
        sorted_wrt (\<lambda>a b. createdAt a \<ge> createdAt b) found \<and>
        (\<forall>e1 e2 e3. mset (logs s) = {#e1, e2, e3#} \<and>
           createdAt e1 < createdAt e2 \<and> createdAt e2 < createdAt e3 \<longrightarrow>
           found = [e3, e2, e1]))"
proof
  assume readable: "store_find w = None"
  let ?found = "sort_key (\<lambda>e. - createdAt e) (logs s)"
  have "getLogs w s = (Inr \<lparr>status = 200, body = LogsBody ?found\<rparr>, s)"
    using readable by (rule getLogs_ok)
  moreover have "mset ?found = mset (logs s)"
    by simp
  moreover have "sorted_wrt (\<lambda>a b. createdAt a \<ge> createdAt b) ?found"
    by (rule sort_desc_sorted)
  moreover have "\<forall>e1 e2 e3. mset (logs s) = {#e1, e2, e3#} \<and>
      createdAt e1 < createdAt e2 \<and> createdAt e2 < createdAt e3 \<longrightarrow> ?found = [e3, e2, e1]"
    by (auto intro: sort_desc_three)
  ultimately show "\<exists>found. getLogs w s = (Inr \<lparr>status = 200, body = LogsBody found\<rparr>, s) \<and>
        mset found = mset (logs s) \<and>
        sorted_wrt (\<lambda>a b. createdAt a \<ge> createdAt b) found \<and>
        (\<forall>e1 e2 e3. mset (logs s) = {#e1, e2, e3#} \<and>
           createdAt e1 < createdAt e2 \<and> createdAt e2 < createdAt e3 \<longrightarrow>
           found = [e3, e2, e1])"
    by blast
qed

lemma log_at_simps:
  "createdAt (log_at t) = t" "logs (state_with_logs es) = es"
  by (simp_all add: log_at_def state_with_logs_def)

theorem getLogs_newest_first_witness:
  "getLogs world_up (state_with_logs [log_at 10, log_at 30, log_at 20]) =
     (Inr \<lparr>status = 200, body = LogsBody [log_at 30, log_at 20, log_at 10]\<rparr>,
      state_with_logs [log_at 10, log_at 30, log_at 20])"
proof -
  have readable: "store_find world_up = None"
    by (simp add: example_simps)
  from getLogs_newest_first [where w = world_up
      and s = "state_with_logs [log_at 10, log_at 30, log_at 20]", rule_format, OF readable]
  obtain found where
    answer: "getLogs world_up (state_with_logs [log_at 10, log_at 30, log_at 20]) =
      (Inr \<lparr>status = 200, body = LogsBody found\<rparr>,
       state_with_logs [log_at 10, log_at 30, log_at 20])"
    and three: "\<forall>e1 e2 e3.
      mset (logs (state_with_logs [log_at 10, log_at 30, log_at 20])) = {#e1, e2, e3#} \<and>
      createdAt e1 < createdAt e2 \<and> createdAt e2 < createdAt e3 \<longrightarrow> found = [e3, e2, e1]"
    by blast
  have "mset (logs (state_with_logs [log_at 10, log_at 30, log_at 20])) =
      {#log_at 10, log_at 20, log_at 30#} \<and>
    createdAt (log_at 10) < createdAt (log_at 20) \<and> createdAt (log_at 20) < createdAt (log_at 30)"
    by (simp add: log_at_simps add_mset_commute)
  with three have "found = [log_at 30, log_at 20, log_at 10]"
    by blast
  with answer show ?thesis
    by simp
qed

section \<open>Searching notes\<close>
















end
